theory Spec2Isabelle
  imports Complex_Main "HOL-Library.AList" "HOL-Library.Multiset"
    "HOL-Library.Char_ord" "HOL-Library.List_Lexorder" "HOL-Library.Product_Lexorder"
begin

section \<open>Number model\<close>

text \<open>
  Python ints are \<open>int\<close>. In the skill matcher every float is a quotient of two set sizes,
  a minimum or a maximum of such quotients, or the literal 1.0; these are kept as exact
  reals. The trend detector computes on numpy scalars, whose arithmetic rounds; its
  numbers are introduced with it below.
\<close>

section \<open>Skill matcher (processing/skill_matcher.py)\<close>

subsection \<open>Value objects\<close>

record Skill =
  skill_id :: string
  skill_name :: string
  category :: string

record JobProfile =
  job_id :: string
  title :: string
  industry :: string
  required_skills :: "(string \<times> Skill) list"

record TransitionPath =
  source_job :: string
  target_job :: string
  skill_overlap :: "string set"
  missing_skills :: "string set"
  transition_difficulty :: real
  skill_gap :: real
  common_skills_count :: int
  missing_skills_count :: int

text \<open>
  \<open>required_skills\<close> is the dict from skill id to Skill, as its list of items.
  The catalog \<open>self.job_profiles\<close> is a dict from job id to profile; it is kept as its
  list of items in insertion order, which is the order every loop over it follows.
\<close>

type_synonym catalog = "(string \<times> JobProfile) list"

definition get_skill_ids :: "JobProfile \<Rightarrow> string set" where
  "get_skill_ids p = set (map fst (required_skills p))"

subsection \<open>Python list helpers\<close>

text \<open>\<open>xs[:n]\<close>: a negative bound counts from the end.\<close>

definition py_slice_to :: "int \<Rightarrow> 'a list \<Rightarrow> 'a list" where
  "py_slice_to n xs =
     (if 0 \<le> n then take (nat n) xs else take (nat (int (length xs) + n)) xs)"

text \<open>
  \<open>sorted(xs, key=f)\<close> is a stable ascending sort, and with \<open>reverse=True\<close> a stable
  descending one: elements with equal keys keep their original order.
\<close>

definition py_sorted :: "('a \<Rightarrow> 'k::linorder) \<Rightarrow> 'a list \<Rightarrow> 'a list" where
  "py_sorted f xs = sort_key f xs"

definition py_sorted_reverse :: "('a \<Rightarrow> 'k::linorder) \<Rightarrow> 'a list \<Rightarrow> 'a list" where
  "py_sorted_reverse f xs = rev (sort_key f (rev xs))"

subsection \<open>Transition between two skill sets\<close>

definition create_transition_path ::
  "string \<Rightarrow> string \<Rightarrow> string set \<Rightarrow> string set \<Rightarrow> TransitionPath" where
  "create_transition_path source_job_id target_job_id source_skills target_skills =
     (let common = source_skills \<inter> target_skills;
          missing = target_skills - source_skills;
          gap = (if target_skills \<noteq> {}
                 then real (card missing) / real (card target_skills) else 1);
          difficulty = gap
      in \<lparr> source_job = source_job_id,
           target_job = target_job_id,
           skill_overlap = common,
           missing_skills = missing,
           transition_difficulty = min 1 difficulty,
           skill_gap = gap,
           common_skills_count = int (card common),
           missing_skills_count = int (card missing) \<rparr>)"

subsection \<open>Similar jobs\<close>

text \<open>The body of the loop over the catalog in \<open>find_similar_jobs\<close>.\<close>

fun similarities_loop ::
  "string \<Rightarrow> string set \<Rightarrow> real \<Rightarrow> catalog \<Rightarrow> (string \<times> real) list" where
  "similarities_loop source_job_id source_skills min_skill_overlap [] = []"
| "similarities_loop source_job_id source_skills min_skill_overlap ((jid, profile) # rest) =
     (if jid = source_job_id
      then similarities_loop source_job_id source_skills min_skill_overlap rest
      else let target_skills = get_skill_ids profile in
        if target_skills = {}
        then similarities_loop source_job_id source_skills min_skill_overlap rest
        else let intersection = card (source_skills \<inter> target_skills);
                 union = card (source_skills \<union> target_skills);
                 similarity = (if union > 0 then real intersection / real union else 0)
             in if similarity \<ge> min_skill_overlap
                then (jid, similarity)
                       # similarities_loop source_job_id source_skills min_skill_overlap rest
                else similarities_loop source_job_id source_skills min_skill_overlap rest)"

definition find_similar_jobs ::
  "catalog \<Rightarrow> string \<Rightarrow> int \<Rightarrow> real \<Rightarrow> (string \<times> real) list" where
  "find_similar_jobs job_profiles source_job_id top_n min_skill_overlap =
     (case map_of job_profiles source_job_id of
        None \<Rightarrow> []
      | Some source_profile \<Rightarrow>
          py_slice_to top_n
            (py_sorted_reverse snd
               (similarities_loop source_job_id (get_skill_ids source_profile)
                  min_skill_overlap job_profiles)))"

subsection \<open>Transition paths\<close>

definition combine_paths ::
  "string \<Rightarrow> string \<Rightarrow> TransitionPath \<Rightarrow> TransitionPath \<Rightarrow> TransitionPath" where
  "combine_paths source_job_id target_job_id to_intermediate intermediate_to_target =
     \<lparr> source_job = source_job_id,
       target_job = target_job_id,
       skill_overlap = skill_overlap to_intermediate \<union> skill_overlap intermediate_to_target,
       missing_skills = missing_skills to_intermediate \<union> missing_skills intermediate_to_target,
       transition_difficulty =
         max (transition_difficulty to_intermediate)
             (transition_difficulty intermediate_to_target),
       skill_gap = max (skill_gap to_intermediate) (skill_gap intermediate_to_target),
       common_skills_count =
         common_skills_count to_intermediate + common_skills_count intermediate_to_target,
       missing_skills_count =
         missing_skills_count to_intermediate + missing_skills_count intermediate_to_target \<rparr>"

text \<open>The loop over the catalog that collects the one-intermediate paths.\<close>

fun intermediate_loop ::
  "string \<Rightarrow> string \<Rightarrow> string set \<Rightarrow> string set \<Rightarrow> catalog \<Rightarrow> TransitionPath list" where
  "intermediate_loop source_job_id target_job_id source_skills target_skills [] = []"
| "intermediate_loop source_job_id target_job_id source_skills target_skills
     ((jid, profile) # rest) =
     (if jid = source_job_id \<or> jid = target_job_id
      then intermediate_loop source_job_id target_job_id source_skills target_skills rest
      else let job_skills = get_skill_ids profile;
               to_intermediate =
                 create_transition_path source_job_id jid source_skills job_skills;
               intermediate_to_target =
                 create_transition_path jid target_job_id job_skills target_skills
           in if transition_difficulty to_intermediate < 1
                 \<and> transition_difficulty intermediate_to_target < 1
              then combine_paths source_job_id target_job_id
                     to_intermediate intermediate_to_target
                   # intermediate_loop source_job_id target_job_id
                       source_skills target_skills rest
              else intermediate_loop source_job_id target_job_id
                     source_skills target_skills rest)"

text \<open>
  The deduplication loop. \<open>unique_paths\<close> is a dict keyed by the frozen set of missing
  skills: a new key is appended, an existing key keeps its place and has its value
  replaced, which is \<open>AList.update\<close>.
\<close>

fun unique_loop ::
  "(string set \<times> TransitionPath) list \<Rightarrow> TransitionPath list
     \<Rightarrow> (string set \<times> TransitionPath) list" where
  "unique_loop unique_paths [] = unique_paths"
| "unique_loop unique_paths (path # rest) =
     (let key = missing_skills path in
      unique_loop
        (case map_of unique_paths key of
           None \<Rightarrow> AList.update key path unique_paths
         | Some kept \<Rightarrow>
             if transition_difficulty path < transition_difficulty kept
             then AList.update key path unique_paths
             else unique_paths)
        rest)"

definition path_sort_key :: "TransitionPath \<Rightarrow> real \<times> int" where
  "path_sort_key x = (transition_difficulty x, - common_skills_count x)"

definition find_transition_paths ::
  "catalog \<Rightarrow> string \<Rightarrow> string \<Rightarrow> int \<Rightarrow> TransitionPath list" where
  "find_transition_paths job_profiles source_job_id target_job_id max_hops =
     (case map_of job_profiles source_job_id of
        None \<Rightarrow> []
      | Some source_profile \<Rightarrow>
        (case map_of job_profiles target_job_id of
           None \<Rightarrow> []
         | Some target_profile \<Rightarrow>
             let source_skills = get_skill_ids source_profile;
                 target_skills = get_skill_ids target_profile;
                 direct_path = create_transition_path source_job_id target_job_id
                                 source_skills target_skills
             in if max_hops \<le> 0
                then (if transition_difficulty direct_path < 1 then [direct_path] else [])
                else let intermediate_paths =
                           intermediate_loop source_job_id target_job_id
                             source_skills target_skills job_profiles;
                         all_paths = filter (\<lambda>p. transition_difficulty p < 1)
                                       (direct_path # intermediate_paths);
                         unique_paths = unique_loop [] all_paths
                     in py_sorted path_sort_key (map snd unique_paths)))"

text \<open>
  The candidate paths of one call, before the feasibility filter and the deduplication:
  the direct path, followed (when \<open>max_hops\<close> is positive) by the one-intermediate
  paths in catalog order.
\<close>

definition candidate_paths :: "catalog \<Rightarrow> string \<Rightarrow> string \<Rightarrow> int \<Rightarrow> TransitionPath list" where
  "candidate_paths job_profiles source_job_id target_job_id max_hops =
     (case map_of job_profiles source_job_id of
        None \<Rightarrow> []
      | Some source_profile \<Rightarrow>
        (case map_of job_profiles target_job_id of
           None \<Rightarrow> []
         | Some target_profile \<Rightarrow>
             create_transition_path source_job_id target_job_id
               (get_skill_ids source_profile) (get_skill_ids target_profile)
             # (if max_hops \<le> 0 then []
                else intermediate_loop source_job_id target_job_id
                       (get_skill_ids source_profile) (get_skill_ids target_profile)
                       job_profiles)))"

section \<open>Trend detector (processing/trend_detector.py)\<close>

subsection \<open>Numbers\<close>

text \<open>
  A numpy scalar: a finite value, an infinity, or not-a-number. Comparison and absolute
  value are exact in machine arithmetic and are defined here: a comparison with
  not-a-number is false, and \<open>x != 0\<close> is \<open>x \<noteq> Fin 0\<close>. Sums, differences, products,
  quotients, means, deviations and the polynomial fit round (and wrap on integer
  columns); their results are not computed here but taken from the library record
  below, so that what is proved holds for whatever the machine returns.
\<close>

datatype fl = Fin real | PInf | NInf | NaN

fun fl_abs :: "fl \<Rightarrow> fl" where
  "fl_abs (Fin x) = Fin \<bar>x\<bar>"
| "fl_abs PInf = PInf"
| "fl_abs NInf = PInf"
| "fl_abs NaN = NaN"

fun fl_less :: "fl \<Rightarrow> fl \<Rightarrow> bool" where
  "fl_less (Fin x) (Fin y) = (x < y)"
| "fl_less (Fin x) PInf = True"
| "fl_less NInf (Fin y) = True"
| "fl_less NInf PInf = True"
| "fl_less a b = False"

definition fl_le :: "fl \<Rightarrow> fl \<Rightarrow> bool" where
  "fl_le a b \<longleftrightarrow> fl_less a b \<or> (a = b \<and> a \<noteq> NaN)"

subsection \<open>Value objects and tables\<close>

datatype TrendDirection = INCREASING | DECREASING | STABLE | VOLATILE

text \<open>
  \<open>period\<close> holds the first and the last timestamp of the series; the source renders
  each as the first ten characters of its ISO form.
\<close>

record TrendResult =
  direction :: TrendDirection
  magnitude :: fl
  confidence :: fl
  start_value :: fl
  end_value :: fl
  period :: "int \<times> int"

record TrendDetector =
  min_periods :: int
  threshold :: fl

datatype py_error = IndexError | ValueError | LinAlgError

text \<open>
  One row of the input table, as the collaborator contract delivers it: the row's values
  in the grouping columns (as strings, in the order of \<open>group_cols\<close>), its parsed
  timestamp and its numeric value.
\<close>

record row =
  group_key :: "string list"
  date :: int
  val :: fl

record shock =
  source_row :: row
  z_score :: fl
  shock_magnitude :: fl
  shock_direction :: string

text \<open>A non-empty list of column names is true, \<open>None\<close> and the empty list are false.\<close>

definition truthy :: "string list option \<Rightarrow> bool" where
  "truthy group_cols = (case group_cols of None \<Rightarrow> False | Some cs \<Rightarrow> cs \<noteq> [])"

subsection \<open>The libraries\<close>

text \<open>
  What the source calls in numpy and pandas, as one record of functions:
  elementwise arithmetic, \<open>np.sum\<close>, \<open>np.mean\<close>, \<open>np.std(..., ddof=1)\<close>,
  \<open>np.polyfit(x, y, 1)\<close> (slope first, or an error), \<open>float(...)\<close>, the three
  \<open>sort_values\<close> calls, and the column that results from
  \<open>groupby(...).apply(f).values\<close> on a table in which every row is its own group. Every
  function of the detector takes the record as its first argument.
\<close>

record library =
  np_add :: "fl \<Rightarrow> fl \<Rightarrow> fl"
  np_sub :: "fl \<Rightarrow> fl \<Rightarrow> fl"
  np_mul :: "fl \<Rightarrow> fl \<Rightarrow> fl"
  np_div :: "fl \<Rightarrow> fl \<Rightarrow> fl"
  np_square :: "fl \<Rightarrow> fl"
  np_sum :: "fl list \<Rightarrow> fl"
  np_mean :: "fl list \<Rightarrow> fl"
  np_std :: "fl list \<Rightarrow> fl"
  np_polyfit :: "fl list \<Rightarrow> fl list \<Rightarrow> py_error + fl \<times> fl"
  py_float :: "fl \<Rightarrow> fl"
  sort_values_date :: "row list \<Rightarrow> row list"
  sort_values_group_date :: "row list \<Rightarrow> row list"
  sort_values_z_descending :: "shock list \<Rightarrow> shock list"
  groupby_apply :: "(fl list \<Rightarrow> fl list) \<Rightarrow> row list \<Rightarrow> py_error + fl list"

text \<open>
  What is used of \<open>sort_values\<close> on the input table: the result has the rows of its
  argument. Their order is whatever the library returns; for the sort by descending
  score, the contract is that no row is followed by one with a greater score. Which of
  two rows with equal keys comes first is left open, as pandas' default sort leaves it.
\<close>

definition keeps_rows :: "library \<Rightarrow> bool" where
  "keeps_rows lib \<longleftrightarrow>
     (\<forall>df. mset (sort_values_date lib df) = mset df)
     \<and> (\<forall>df. mset (sort_values_group_date lib df) = mset df)"

definition sorts_shocks :: "library \<Rightarrow> bool" where
  "sorts_shocks lib \<longleftrightarrow>
     (\<forall>xs. mset (sort_values_z_descending lib xs) = mset xs
          \<and> sorted_wrt (\<lambda>s t. \<not> fl_less (z_score s) (z_score t))
               (sort_values_z_descending lib xs))"

subsection \<open>Trend of one series\<close>

definition analyze_series ::
  "library \<Rightarrow> TrendDetector \<Rightarrow> fl list \<Rightarrow> int list \<Rightarrow> py_error + TrendResult option" where
  "analyze_series lib self values dates =
     (if int (length values) < min_periods self then Inr None
      else if values = [] \<or> dates = [] then Inl IndexError
      else let start_val = hd values;
               end_val = last values;
               period_pair = (hd dates, last dates);
               x = map (\<lambda>i. Fin (real i)) [0..<length values]
           in case np_polyfit lib x values of
                Inl e \<Rightarrow> Inl e
              | Inr (slope, intercept) \<Rightarrow>
                  let y_hat = map (\<lambda>xi. np_add lib intercept (np_mul lib slope xi)) x;
                      ss_res = np_sum lib (map (\<lambda>(v, yh). np_square lib (np_sub lib v yh))
                                             (zip values y_hat));
                      mean = np_mean lib values;
                      ss_tot = np_sum lib (map (\<lambda>v. np_square lib (np_sub lib v mean)) values);
                      r_squared = (if ss_tot \<noteq> Fin 0
                                   then np_sub lib (Fin 1) (np_div lib ss_res ss_tot)
                                   else Fin 0);
                      pct_change = (if start_val \<noteq> Fin 0
                                    then np_div lib (np_sub lib end_val start_val) start_val
                                    else Fin 0);
                      dir = (if fl_less (fl_abs pct_change) (threshold self) then STABLE
                             else if fl_less (Fin 0) pct_change then INCREASING
                             else DECREASING)
                  in Inr (Some \<lparr> direction = dir,
                                  magnitude = fl_abs pct_change,
                                  confidence = py_float lib r_squared,
                                  start_value = py_float lib start_val,
                                  end_value = py_float lib end_val,
                                  period = period_pair \<rparr>))"

subsection \<open>Trends of a table\<close>

text \<open>
  Groups are visited in the order of their first row in the sorted table, each with its
  rows in table order, as \<open>groupby\<close> yields them from a table sorted by group.
\<close>

definition group_names :: "row list \<Rightarrow> string list list" where
  "group_names df = remdups (map group_key df)"

definition group_rows :: "string list \<Rightarrow> row list \<Rightarrow> row list" where
  "group_rows g df = filter (\<lambda>r. group_key r = g) df"

text \<open>\<open>','.join(str(g) for g in group_name)\<close>\<close>

fun join_comma :: "string list \<Rightarrow> string" where
  "join_comma [] = []"
| "join_comma [g] = g"
| "join_comma (g # gs) = g @ '','' @ join_comma gs"

fun trends_loop ::
  "library \<Rightarrow> TrendDetector \<Rightarrow> row list \<Rightarrow> string list list
     \<Rightarrow> (string \<times> TrendResult) list \<Rightarrow> py_error + (string \<times> TrendResult) list" where
  "trends_loop lib self df [] results = Inr results"
| "trends_loop lib self df (group_name # rest) results =
     (let group_df = group_rows group_name df in
      if int (length group_df) < min_periods self
      then trends_loop lib self df rest results
      else case analyze_series lib self (map val group_df) (map date group_df) of
             Inl e \<Rightarrow> Inl e
           | Inr None \<Rightarrow> trends_loop lib self df rest results
           | Inr (Some result) \<Rightarrow>
               trends_loop lib self df rest
                 (AList.update (join_comma group_name) result results))"

definition detect_trends ::
  "library \<Rightarrow> TrendDetector \<Rightarrow> row list \<Rightarrow> string list option
     \<Rightarrow> py_error + (string \<times> TrendResult) list" where
  "detect_trends lib self df group_cols =
     (if df = [] \<or> int (length df) < min_periods self then Inr []
      else if \<not> truthy group_cols
      then (let sorted_df = sort_values_date lib df in
            case analyze_series lib self (map val sorted_df) (map date sorted_df) of
              Inl e \<Rightarrow> Inl e
            | Inr None \<Rightarrow> Inr []
            | Inr (Some result) \<Rightarrow> Inr [(''overall'', result)])
      else (let sorted_df = sort_values_group_date lib df in
            trends_loop lib self sorted_df (group_names sorted_df) []))"

subsection \<open>Shocks\<close>

text \<open>\<open>calculate_zscores\<close> on the values of one group.\<close>

definition calculate_zscores :: "library \<Rightarrow> fl list \<Rightarrow> fl list" where
  "calculate_zscores lib values =
     (let mean = np_mean lib values;
          std = np_std lib values
      in if std \<noteq> Fin 0 then map (\<lambda>v. np_div lib (np_sub lib v mean) std) values
         else map (\<lambda>v. Fin 0) values)"

text \<open>
  The column stored as \<open>df['z_score']\<close>. Without grouping it is \<open>calculate_zscores\<close> of
  the whole value column. With grouping the source assigns
  \<open>df.groupby(group_cols, group_keys=False).apply(calculate_zscores).values\<close>: since
  \<open>calculate_zscores\<close> returns an array and not a table, \<open>apply\<close> yields one array per
  group, so \<open>.values\<close> has one entry per group, and assigning it to a column of a table
  with a different number of rows raises ValueError. Only when every row is its own
  group does the assignment go through; the cells are then one-element arrays, and the
  column the later comparisons see is left to the library.
\<close>

definition z_score_column ::
  "library \<Rightarrow> row list \<Rightarrow> string list option \<Rightarrow> py_error + fl list" where
  "z_score_column lib df group_cols =
     (if truthy group_cols
      then (if length (group_names df) \<noteq> length df then Inl ValueError
            else groupby_apply lib (calculate_zscores lib) df)
      else Inr (calculate_zscores lib (map val df)))"

text \<open>\<open>df[abs(df['z_score']) >= z_threshold]\<close>\<close>

fun shock_mask :: "fl \<Rightarrow> (row \<times> fl) list \<Rightarrow> (row \<times> fl) list" where
  "shock_mask z_threshold [] = []"
| "shock_mask z_threshold ((r, z) # rest) =
     (if fl_le z_threshold (fl_abs z) then (r, z) # shock_mask z_threshold rest
      else shock_mask z_threshold rest)"

definition annotate :: "row \<times> fl \<Rightarrow> shock" where
  "annotate rz =
     \<lparr> source_row = fst rz,
       z_score = snd rz,
       shock_magnitude = fl_abs (snd rz),
       shock_direction = (if fl_less (Fin 0) (snd rz) then ''positive'' else ''negative'') \<rparr>"

definition detect_shocks ::
  "library \<Rightarrow> row list \<Rightarrow> string list option \<Rightarrow> fl \<Rightarrow> py_error + shock list" where
  "detect_shocks lib df group_cols z_threshold =
     (if df = [] then Inr []
      else case z_score_column lib df group_cols of
             Inl e \<Rightarrow> Inl e
           | Inr zs \<Rightarrow>
               Inr (sort_values_z_descending lib
                      (map annotate (shock_mask z_threshold (zip df zs)))))"

subsection \<open>The tables as objects\<close>

text \<open>
  For the effect of a call on the caller's table, tables are objects in a store and a
  table is named by its address. \<open>df.copy()\<close>, \<open>sort_values\<close>, \<open>pd.DataFrame()\<close> and
  \<open>df[mask].copy()\<close> allocate a new table; assigning a column writes to the table the
  name is bound to at that point. A table is its rows, with the score or with the score
  and the two shock columns once these have been assigned.
\<close>

datatype table = Rows "row list" | Scored "(row \<times> fl) list" | Shocks "shock list"

type_synonym store = "table list"


definition allocate :: "store \<Rightarrow> table \<Rightarrow> store \<times> nat" where
  "allocate st t = (st @ [t], length st)"




subsection \<open>The specification's wording\<close>

text \<open>
  The percentage change between a start and an end value, in the library's arithmetic,
  and the rule that ties direction and magnitude of a result to it. Both follow the
  specification's wording and are what the source's results are compared with.
\<close>

definition pct_change_of :: "library \<Rightarrow> fl \<Rightarrow> fl \<Rightarrow> fl" where
  "pct_change_of lib start_val end_val =
     (if start_val = Fin 0 then Fin 0
      else np_div lib (np_sub lib end_val start_val) start_val)"


text \<open>The series a call of \<open>detect_trends\<close> analyses: the whole sorted table, or its groups.\<close>

definition table_series :: "library \<Rightarrow> row list \<Rightarrow> string list option \<Rightarrow> (string \<times> row list) list" where
  "table_series lib df group_cols =
     (if truthy group_cols
      then map (\<lambda>g. (join_comma g, group_rows g (sort_values_group_date lib df)))
             (group_names (sort_values_group_date lib df))
      else [(''overall'', sort_values_date lib df)])"

text \<open>A row that meets the threshold, and a shock read back as row and score.\<close>

definition meets_threshold :: "fl \<Rightarrow> row \<times> fl \<Rightarrow> bool" where
  "meets_threshold z_threshold rz \<longleftrightarrow> fl_le z_threshold (fl_abs (snd rz))"

definition scored :: "shock \<Rightarrow> row \<times> fl" where
  "scored s = (source_row s, z_score s)"

text \<open>
  On a finite value \<open>x\<close> the machine gives \<open>x - x = 0\<close> and, for \<open>x\<close> other than zero,
  \<open>0 / x = 0\<close>, in floating point and in integers alike.
\<close>

definition cancels :: "library \<Rightarrow> bool" where
  "cancels lib \<longleftrightarrow>
     (\<forall>x. np_sub lib (Fin x) (Fin x) = Fin 0)
     \<and> (\<forall>x. x \<noteq> 0 \<longrightarrow> np_div lib (Fin 0) (Fin x) = Fin 0)"

subsection \<open>Names used in the proofs\<close>

text \<open>The result \<open>_analyze_series\<close> builds once the fit has returned.\<close>

definition fitted_result ::
  "library \<Rightarrow> TrendDetector \<Rightarrow> fl list \<Rightarrow> int list \<Rightarrow> fl \<Rightarrow> fl \<Rightarrow> TrendResult" where
  "fitted_result lib self values dates slope intercept =
     (let x = map (\<lambda>i. Fin (real i)) [0..<length values];
          y_hat = map (\<lambda>xi. np_add lib intercept (np_mul lib slope xi)) x;
          ss_res = np_sum lib (map (\<lambda>(v, yh). np_square lib (np_sub lib v yh))
                                 (zip values y_hat));
          ss_tot = np_sum lib (map (\<lambda>v. np_square lib (np_sub lib v (np_mean lib values)))
                                 values);
          pct_change = pct_change_of lib (hd values) (last values)
      in \<lparr> direction = (if fl_less (fl_abs pct_change) (threshold self) then STABLE
                         else if fl_less (Fin 0) pct_change then INCREASING else DECREASING),
           magnitude = fl_abs pct_change,
           confidence = py_float lib (if ss_tot \<noteq> Fin 0
                                      then np_sub lib (Fin 1) (np_div lib ss_res ss_tot)
                                      else Fin 0),
           start_value = py_float lib (hd values),
           end_value = py_float lib (last values),
           period = (hd dates, last dates) \<rparr>)"


section \<open>Sample data\<close>

subsection \<open>Sample catalog\<close>

definition mk_skill :: "string \<Rightarrow> Skill" where
  "mk_skill s = \<lparr> skill_id = s, skill_name = s, category = ''general'' \<rparr>"

definition mk_job :: "string \<Rightarrow> string list \<Rightarrow> JobProfile" where
  "mk_job j ss = \<lparr> job_id = j, title = j, industry = ''any'',
                   required_skills = map (\<lambda>s. (s, mk_skill s)) ss \<rparr>"

definition job_A :: JobProfile where "job_A = mk_job ''A'' [''python'', ''sql'']"
definition job_B :: JobProfile where "job_B = mk_job ''B'' [''sql'', ''excel'']"
definition job_C :: JobProfile where "job_C = mk_job ''C'' [''sql'', ''excel'', ''python'']"
definition job_E :: JobProfile where "job_E = mk_job ''E'' []"

text \<open>One iteration of the deduplication loop, named for the proofs.\<close>

definition unique_step ::
  "(string set \<times> TransitionPath) list \<Rightarrow> TransitionPath \<Rightarrow> (string set \<times> TransitionPath) list" where
  "unique_step up path =
     (case map_of up (missing_skills path) of
        None \<Rightarrow> AList.update (missing_skills path) path up
      | Some kept \<Rightarrow>
          if transition_difficulty path < transition_difficulty kept
          then AList.update (missing_skills path) path up
          else up)"

text \<open>Every entry of the dict is stored under its own set of missing skills.\<close>

definition keyed :: "(string set \<times> TransitionPath) list \<Rightarrow> bool" where
  "keyed up \<longleftrightarrow> (\<forall>k p. map_of up k = Some p \<longrightarrow> missing_skills p = k)"

text \<open>
  The order of the final sort: ascending difficulty, and for equal difficulty descending
  number of common skills.
\<close>

definition path_before :: "TransitionPath \<Rightarrow> TransitionPath \<Rightarrow> bool" where
  "path_before p q \<longleftrightarrow>
     transition_difficulty p < transition_difficulty q
     \<or> (transition_difficulty p = transition_difficulty q
        \<and> common_skills_count q \<le> common_skills_count p)"

definition cat3 :: catalog where
  "cat3 = [(''A'', job_A), (''B'', job_B), (''C'', job_C)]"

subsection \<open>A library without rounding\<close>

text \<open>
  The library functions on inputs where nothing rounds: exact arithmetic on finite
  values, not-a-number otherwise; the least-squares line; stable sorts. It is used to run
  the detector on small tables whose values and results are exactly representable.
  It does not compute the score column of a grouped table whose rows are all their own
  groups and answers that call with an error.
\<close>

definition exact2 :: "(real \<Rightarrow> real \<Rightarrow> real) \<Rightarrow> fl \<Rightarrow> fl \<Rightarrow> fl" where
  "exact2 f a b = (case a of Fin x \<Rightarrow> (case b of Fin y \<Rightarrow> Fin (f x y) | _ \<Rightarrow> NaN) | _ \<Rightarrow> NaN)"

definition exact_div :: "fl \<Rightarrow> fl \<Rightarrow> fl" where
  "exact_div a b =
     (case a of Fin x \<Rightarrow> (case b of Fin y \<Rightarrow> if y = 0 then NaN else Fin (x / y) | _ \<Rightarrow> NaN)
              | _ \<Rightarrow> NaN)"

fun finite_values :: "fl list \<Rightarrow> real list option" where
  "finite_values [] = Some []"
| "finite_values (Fin x # rest) = map_option (\<lambda>xs. x # xs) (finite_values rest)"
| "finite_values (a # rest) = None"

definition mean_of :: "real list \<Rightarrow> real" where
  "mean_of xs = sum_list xs / real (length xs)"

definition exact_sum :: "fl list \<Rightarrow> fl" where
  "exact_sum vs = (case finite_values vs of None \<Rightarrow> NaN | Some xs \<Rightarrow> Fin (sum_list xs))"

definition exact_mean :: "fl list \<Rightarrow> fl" where
  "exact_mean vs =
     (case finite_values vs of
        None \<Rightarrow> NaN
      | Some xs \<Rightarrow> if xs = [] then NaN else Fin (mean_of xs))"

definition exact_std :: "fl list \<Rightarrow> fl" where
  "exact_std vs =
     (case finite_values vs of
        None \<Rightarrow> NaN
      | Some xs \<Rightarrow>
          if length xs \<le> 1 then NaN
          else Fin (sqrt (sum_list (map (\<lambda>v. (v - mean_of xs)\<^sup>2) xs) / real (length xs - 1))))"

definition exact_polyfit :: "fl list \<Rightarrow> fl list \<Rightarrow> py_error + fl \<times> fl" where
  "exact_polyfit xs ys =
     (case finite_values xs of
        None \<Rightarrow> Inl LinAlgError
      | Some x \<Rightarrow>
         (case finite_values ys of
            None \<Rightarrow> Inl LinAlgError
          | Some y \<Rightarrow>
              if length x < 2 then Inl LinAlgError
              else let sxx = sum_list (map (\<lambda>xi. (xi - mean_of x)\<^sup>2) x);
                       sxy = sum_list (map (\<lambda>(xi, yi). (xi - mean_of x) * (yi - mean_of y))
                                         (zip x y));
                       slope = sxy / sxx
                   in Inr (Fin slope, Fin (mean_of y - slope * mean_of x))))"

text \<open>Sort key for descending scores: infinities at the ends, not-a-number last.\<close>

fun descending_key :: "fl \<Rightarrow> int \<times> real" where
  "descending_key PInf = (0, 0)"
| "descending_key (Fin x) = (1, - x)"
| "descending_key NInf = (2, 0)"
| "descending_key NaN = (3, 0)"

definition exact_library :: library where
  "exact_library =
     \<lparr> np_add = exact2 (+),
       np_sub = exact2 (-),
       np_mul = exact2 (*),
       np_div = exact_div,
       np_square = (\<lambda>a. exact2 (*) a a),
       np_sum = exact_sum,
       np_mean = exact_mean,
       np_std = exact_std,
       np_polyfit = exact_polyfit,
       py_float = (\<lambda>a. a),
       sort_values_date = sort_key date,
       sort_values_group_date = sort_key (\<lambda>r. (group_key r, date r)),
       sort_values_z_descending = sort_key (\<lambda>s. descending_key (z_score s)),
       groupby_apply = (\<lambda>f df. Inl ValueError) \<rparr>"

subsection \<open>Sample tables\<close>

definition mk_row :: "string \<Rightarrow> int \<Rightarrow> real \<Rightarrow> row" where
  "mk_row g d v = \<lparr> group_key = [g], date = d, val = Fin v \<rparr>"

definition default_detector :: TrendDetector where
  "default_detector = \<lparr> min_periods = 3, threshold = Fin (1 / 10) \<rparr>"

definition flat_rows :: "row list" where
  "flat_rows = [mk_row ''total'' 1 3, mk_row ''total'' 2 3, mk_row ''total'' 3 3]"


definition spike_rows :: "row list" where
  "spike_rows = [mk_row ''total'' 1 1, mk_row ''total'' 2 1, mk_row ''total'' 3 1,
                 mk_row ''total'' 4 5]"

definition grouped_rows :: "row list" where
  "grouped_rows = [mk_row ''women'' 1 5, mk_row ''men'' 2 (9 / 2), mk_row ''men'' 1 4,
                   mk_row ''women'' 2 6, mk_row ''men'' 3 6]"

definition level_rows :: "row list" where
  "level_rows = [mk_row ''women'' 1 5, mk_row ''men'' 1 3, mk_row ''women'' 2 5,
                 mk_row ''men'' 2 3, mk_row ''men'' 3 3, mk_row ''women'' 3 5]"

subsection \<open>Expected results on the sample tables\<close>


definition flat_result :: TrendResult where
  "flat_result = \<lparr> direction = STABLE, magnitude = Fin 0, confidence = Fin 0,
                   start_value = Fin 3, end_value = Fin 3, period = (1, 3) \<rparr>"

definition men_result :: TrendResult where
  "men_result = \<lparr> direction = INCREASING, magnitude = Fin (1 / 2), confidence = Fin (12 / 13),
                  start_value = Fin 4, end_value = Fin 6, period = (1, 3) \<rparr>"

definition level_result :: TrendResult where
  "level_result = \<lparr> direction = STABLE, magnitude = Fin 0, confidence = Fin 0,
                    start_value = Fin 5, end_value = Fin 5, period = (1, 3) \<rparr>"

definition spike_scores :: "fl list" where
  "spike_scores = [Fin (- 1 / 2), Fin (- 1 / 2), Fin (- 1 / 2), Fin (3 / 2)]"

definition spike_shocks :: "shock list" where
  "spike_shocks =
     [\<lparr> source_row = mk_row ''total'' 4 5, z_score = Fin (3 / 2),
        shock_magnitude = Fin (3 / 2), shock_direction = ''positive'' \<rparr>,
      \<lparr> source_row = mk_row ''total'' 1 1, z_score = Fin (- 1 / 2),
        shock_magnitude = Fin (1 / 2), shock_direction = ''negative'' \<rparr>,
      \<lparr> source_row = mk_row ''total'' 2 1, z_score = Fin (- 1 / 2),
        shock_magnitude = Fin (1 / 2), shock_direction = ''negative'' \<rparr>,
      \<lparr> source_row = mk_row ''total'' 3 1, z_score = Fin (- 1 / 2),
        shock_magnitude = Fin (1 / 2), shock_direction = ''negative'' \<rparr>]"

definition flat_shocks :: "shock list" where
  "flat_shocks =
     [\<lparr> source_row = mk_row ''total'' 1 3, z_score = Fin 0, shock_magnitude = Fin 0,
        shock_direction = ''negative'' \<rparr>,
      \<lparr> source_row = mk_row ''total'' 2 3, z_score = Fin 0, shock_magnitude = Fin 0,
        shock_direction = ''negative'' \<rparr>,
      \<lparr> source_row = mk_row ''total'' 3 3, z_score = Fin 0, shock_magnitude = Fin 0,
        shock_direction = ''negative'' \<rparr>]"

section \<open>Properties of the skill matcher\<close>

lemma ids_mk_job: "get_skill_ids (mk_job j ss) = set ss"
  by (simp add: get_skill_ids_def mk_job_def comp_def)

lemma set_py_slice_to: "set (py_slice_to n xs) \<subseteq> set xs"
  by (auto simp: py_slice_to_def dest: in_set_takeD)

lemma set_py_sorted_reverse: "set (py_sorted_reverse f xs) = set xs"
  by (simp add: py_sorted_reverse_def)

text \<open>
  C7: \<open>_create_transition_path\<close> sets skill_gap to |target - source| / |target|, and to 1
  for an empty target, and transition_difficulty to min(1, skill_gap). For job A with
  skills {python, sql} and job B with skills {sql, excel}, \<open>find_similar_jobs\<close> computes
  similarity 1/3, the missing skills from A to B are {excel}, the skill gap is 1/2 and
  the transition difficulty is 1/2.
\<close>

theorem create_transition_path_gap:
  "skill_gap (create_transition_path s t S T)
     = (if T = {} then 1 else real (card (T - S)) / real (card T))
   \<and> transition_difficulty (create_transition_path s t S T)
     = min 1 (skill_gap (create_transition_path s t S T))
   \<and> find_similar_jobs [(''A'', job_A), (''B'', job_B)] ''A'' 5 (3 / 10) = [(''B'', 1 / 3)]
   \<and> missing_skills (create_transition_path ''A'' ''B''
        (get_skill_ids job_A) (get_skill_ids job_B)) = {''excel''}
   \<and> skill_gap (create_transition_path ''A'' ''B''
        (get_skill_ids job_A) (get_skill_ids job_B)) = 1 / 2
   \<and> transition_difficulty (create_transition_path ''A'' ''B''
        (get_skill_ids job_A) (get_skill_ids job_B)) = 1 / 2"
proof -
  have g: "skill_gap (create_transition_path s t S T)
     = (if T = {} then 1 else real (card (T - S)) / real (card T))"
    by (simp add: create_transition_path_def Let_def)
  have d: "transition_difficulty (create_transition_path s t S T)
     = min 1 (skill_gap (create_transition_path s t S T))"
    by (simp add: create_transition_path_def Let_def)
  have j: "find_similar_jobs [(''A'', job_A), (''B'', job_B)] ''A'' 5 (3 / 10)
     = [(''B'', 1 / 3)]"
    by (simp add: find_similar_jobs_def job_A_def job_B_def ids_mk_job py_slice_to_def
          py_sorted_reverse_def Let_def card_insert_if)
  have m: "missing_skills (create_transition_path ''A'' ''B''
        (get_skill_ids job_A) (get_skill_ids job_B)) = {''excel''}"
    by (auto simp add: create_transition_path_def job_A_def job_B_def ids_mk_job Let_def)
  have g2: "skill_gap (create_transition_path ''A'' ''B''
        (get_skill_ids job_A) (get_skill_ids job_B)) = 1 / 2"
    by (simp add: create_transition_path_def job_A_def job_B_def ids_mk_job Let_def
          card_insert_if)
  have d2: "transition_difficulty (create_transition_path ''A'' ''B''
        (get_skill_ids job_A) (get_skill_ids job_B)) = 1 / 2"
    by (simp add: create_transition_path_def job_A_def job_B_def ids_mk_job Let_def
          card_insert_if)
  from g d j m g2 d2 show ?thesis by blast
qed

theorem create_transition_path_gap_witness:
  "skill_gap (create_transition_path ''A'' ''E'' {''python'', ''sql''} {}) = 1
   \<and> transition_difficulty (create_transition_path ''A'' ''E'' {''python'', ''sql''} {}) = 1
   \<and> skill_gap (create_transition_path ''E'' ''B'' {} {''sql'', ''excel''}) = 1"
  using create_transition_path_gap [of "''A''" "''E''" "{''python'', ''sql''}" "{}"]
        create_transition_path_gap [of "''E''" "''B''" "{}" "{''sql'', ''excel''}"]
  by (simp add: card_insert_if)

text \<open>
  C2: whenever both hop bounds are positive, \<open>find_transition_paths\<close> returns the same
  list for either: the bound is only ever compared with zero.
\<close>

theorem find_transition_paths_max_hops_irrelevant:
  "0 < a \<Longrightarrow> 0 < b \<Longrightarrow>
     find_transition_paths job_profiles source_job_id target_job_id a
       = find_transition_paths job_profiles source_job_id target_job_id b"
  by (simp add: find_transition_paths_def Let_def split: option.splits)

theorem find_transition_paths_max_hops_irrelevant_witness:
  "(0::int) < 1 \<and> (0::int) < 7
   \<and> find_transition_paths [(''A'', job_A), (''B'', job_B), (''C'', job_C)] ''A'' ''B'' 1
       = find_transition_paths [(''A'', job_A), (''B'', job_B), (''C'', job_C)] ''A'' ''B'' 7"
  using find_transition_paths_max_hops_irrelevant
          [of 1 7 "[(''A'', job_A), (''B'', job_B), (''C'', job_C)]" "''A''" "''B''"]
  by simp

lemma similarities_loop_nonempty:
  "(j, s) \<in> set (similarities_loop src ss mso cat) \<Longrightarrow>
     \<exists>p. (j, p) \<in> set cat \<and> get_skill_ids p \<noteq> {} \<and> j \<noteq> src"
proof (induction cat)
  case Nil
  then show ?case by simp
next
  case (Cons a cat)
  obtain jid profile where a: "a = (jid, profile)" by (cases a)
  show ?case
  proof (cases "jid = src \<or> get_skill_ids profile = {}")
    case True
    then have "(j, s) \<in> set (similarities_loop src ss mso cat)"
      using Cons.prems a by (auto simp: Let_def split: if_splits)
    then show ?thesis using Cons.IH by auto
  next
    case False
    then have "j = jid \<or> (j, s) \<in> set (similarities_loop src ss mso cat)"
      using Cons.prems a by (auto simp: Let_def split: if_splits)
    then show ?thesis
    proof
      assume "j = jid"
      then show ?thesis using False a by auto
    next
      assume "(j, s) \<in> set (similarities_loop src ss mso cat)"
      then show ?thesis using Cons.IH by auto
    qed
  qed
qed

text \<open>
  C10: \<open>find_similar_jobs\<close> never returns a candidate whose required-skill set is empty,
  whatever the minimum overlap, zero and negative values included: every returned job id
  is the id of a catalog entry other than the source that has at least one skill.
\<close>

theorem find_similar_jobs_skips_empty:
  "\<forall>(j, s) \<in> set (find_similar_jobs job_profiles source_job_id top_n min_skill_overlap).
     \<exists>p. (j, p) \<in> set job_profiles \<and> get_skill_ids p \<noteq> {} \<and> j \<noteq> source_job_id"
proof (cases "map_of job_profiles source_job_id")
  case None
  then show ?thesis by (simp add: find_similar_jobs_def)
next
  case (Some sp)
  show ?thesis
  proof (clarify)
    fix j s
    assume "(j, s) \<in> set (find_similar_jobs job_profiles source_job_id top_n min_skill_overlap)"
    then have "(j, s) \<in> set (similarities_loop source_job_id (get_skill_ids sp)
                               min_skill_overlap job_profiles)"
      using Some set_py_slice_to set_py_sorted_reverse
      by (fastforce simp: find_similar_jobs_def)
    then show "\<exists>p. (j, p) \<in> set job_profiles \<and> get_skill_ids p \<noteq> {} \<and> j \<noteq> source_job_id"
      using similarities_loop_nonempty by blast
  qed
qed

theorem find_similar_jobs_skips_empty_witness:
  "find_similar_jobs [(''A'', job_A), (''E'', job_E), (''B'', job_B)] ''A'' 5 (- 1)
     = [(''B'', 1 / 3)]
   \<and> get_skill_ids job_E = {}
   \<and> (\<exists>p. (''B'', p) \<in> set [(''A'', job_A), (''E'', job_E), (''B'', job_B)]
          \<and> get_skill_ids p \<noteq> {} \<and> ''B'' \<noteq> ''A'')"
proof -
  have e: "find_similar_jobs [(''A'', job_A), (''E'', job_E), (''B'', job_B)] ''A'' 5 (- 1)
     = [(''B'', 1 / 3)]"
    by (simp add: find_similar_jobs_def job_A_def job_B_def job_E_def ids_mk_job
          py_slice_to_def py_sorted_reverse_def Let_def card_insert_if)
  have n: "get_skill_ids job_E = {}"
    by (simp add: job_E_def ids_mk_job)
  have "\<forall>(j, s) \<in> set [(''B'', 1 / 3 :: real)].
          \<exists>p. (j, p) \<in> set [(''A'', job_A), (''E'', job_E), (''B'', job_B)]
              \<and> get_skill_ids p \<noteq> {} \<and> j \<noteq> ''A''"
    using find_similar_jobs_skips_empty
            [of "[(''A'', job_A), (''E'', job_E), (''B'', job_B)]" "''A''" 5 "- 1"]
    unfolding e .
  then have "\<exists>p. (''B'', p) \<in> set [(''A'', job_A), (''E'', job_E), (''B'', job_B)]
          \<and> get_skill_ids p \<noteq> {} \<and> ''B'' \<noteq> ''A''"
    by simp
  with e n show ?thesis by blast
qed

lemma unique_loop_Cons: "unique_loop up (p # ps) = unique_loop (unique_step up p) ps"
  by (simp add: unique_step_def Let_def)

lemma unique_step_distinct:
  "distinct (map fst up) \<Longrightarrow> distinct (map fst (unique_step up p))"
  by (simp add: unique_step_def distinct_update split: option.splits)

lemma unique_step_map_of:
  "map_of (unique_step up p) k =
     (if k = missing_skills p \<and>
         (case map_of up k of None \<Rightarrow> True
          | Some kept \<Rightarrow> transition_difficulty p < transition_difficulty kept)
      then Some p else map_of up k)"
  by (auto simp: unique_step_def update_conv' split: option.splits)

lemma unique_step_keyed: "keyed up \<Longrightarrow> keyed (unique_step up p)"
  by (auto simp: keyed_def unique_step_map_of split: if_splits)

lemma unique_loop_distinct:
  "distinct (map fst up) \<Longrightarrow> distinct (map fst (unique_loop up ps))"
proof (induction ps arbitrary: up)
  case Nil then show ?case by simp
next
  case (Cons p ps)
  then show ?case unfolding unique_loop_Cons by (simp add: unique_step_distinct)
qed

lemma unique_loop_keyed: "keyed up \<Longrightarrow> keyed (unique_loop up ps)"
proof (induction ps arbitrary: up)
  case Nil then show ?case by simp
next
  case (Cons p ps)
  then show ?case unfolding unique_loop_Cons by (simp add: unique_step_keyed)
qed

lemma unique_loop_from:
  "map_of (unique_loop up ps) k = Some r \<Longrightarrow> r \<in> set ps \<or> map_of up k = Some r"
proof (induction ps arbitrary: up)
  case Nil then show ?case by simp
next
  case (Cons p ps)
  from Cons.prems have "map_of (unique_loop (unique_step up p) ps) k = Some r"
    by (simp only: unique_loop_Cons)
  then have "r \<in> set ps \<or> map_of (unique_step up p) k = Some r" by (rule Cons.IH)
  then show ?case by (auto simp: unique_step_map_of split: if_splits)
qed

lemma unique_loop_mono:
  "map_of up k = Some r0 \<Longrightarrow>
     \<exists>r. map_of (unique_loop up ps) k = Some r
         \<and> transition_difficulty r \<le> transition_difficulty r0"
proof (induction ps arbitrary: up r0)
  case Nil then show ?case by simp
next
  case (Cons p ps)
  have "\<exists>r1. map_of (unique_step up p) k = Some r1
          \<and> transition_difficulty r1 \<le> transition_difficulty r0"
    using Cons.prems by (auto simp: unique_step_map_of)
  then obtain r1 where r1: "map_of (unique_step up p) k = Some r1"
    "transition_difficulty r1 \<le> transition_difficulty r0" by blast
  from Cons.IH [OF r1(1)] obtain r where
    "map_of (unique_loop (unique_step up p) ps) k = Some r"
    "transition_difficulty r \<le> transition_difficulty r1" by blast
  with r1(2) show ?case unfolding unique_loop_Cons by force
qed

lemma unique_loop_covers:
  "c \<in> set ps \<Longrightarrow>
     \<exists>r. map_of (unique_loop up ps) (missing_skills c) = Some r
         \<and> transition_difficulty r \<le> transition_difficulty c"
proof (induction ps arbitrary: up)
  case Nil then show ?case by simp
next
  case (Cons p ps)
  show ?case
  proof (cases "c = p")
    case True
    have "\<exists>r1. map_of (unique_step up p) (missing_skills p) = Some r1
          \<and> transition_difficulty r1 \<le> transition_difficulty p"
      by (auto simp: unique_step_map_of split: option.splits)
    then obtain r1 where r1: "map_of (unique_step up p) (missing_skills p) = Some r1"
      "transition_difficulty r1 \<le> transition_difficulty p" by blast
    from unique_loop_mono [OF r1(1), of ps] obtain r where
      "map_of (unique_loop (unique_step up p) ps) (missing_skills p) = Some r"
      "transition_difficulty r \<le> transition_difficulty r1" by blast
    with r1(2) True show ?thesis unfolding unique_loop_Cons by force
  next
    case False
    then have "c \<in> set ps" using Cons.prems by simp
    from Cons.IH [OF this] show ?thesis unfolding unique_loop_Cons .
  qed
qed

lemma keyed_Nil: "keyed []" by (simp add: keyed_def)

lemma keyed_values:
  assumes "keyed up" "distinct (map fst up)"
  shows "map missing_skills (map snd up) = map fst up"
proof -
  have "\<forall>(k, p) \<in> set up. missing_skills p = k"
    using assms by (auto simp: keyed_def)
  then show ?thesis by (induction up) auto
qed

lemma distinct_map_sort_key:
  "distinct (map g (sort_key f xs)) = distinct (map g xs)"
  by (simp add: distinct_map)

lemma sorted_path_sort_key:
  "sorted (map path_sort_key ps) \<Longrightarrow>
   sorted_wrt (\<lambda>p q. transition_difficulty p < transition_difficulty q
      \<or> (transition_difficulty p = transition_difficulty q
          \<and> common_skills_count q \<le> common_skills_count p)) ps"
  by (induction ps) (auto simp: path_sort_key_def less_eq_prod_def)

lemma unique_values:
  assumes "distinct (map fst up)"
  shows "r \<in> snd ` set up \<longleftrightarrow> (\<exists>k. map_of up k = Some r)"
  using assms by (force simp: map_of_eq_Some_iff)

lemma dedup_result:
  fixes ap :: "TransitionPath list"
  defines "res \<equiv> py_sorted path_sort_key (map snd (unique_loop [] ap))"
  shows "set res \<subseteq> set ap"
    and "distinct (map missing_skills res)"
    and "\<forall>c\<in>set ap. \<exists>r\<in>set res. missing_skills r = missing_skills c
            \<and> transition_difficulty r \<le> transition_difficulty c"
    and "\<forall>p\<in>set res. \<forall>c\<in>set ap. missing_skills c = missing_skills p
            \<longrightarrow> transition_difficulty p \<le> transition_difficulty c"
    and "sorted_wrt path_before res"
proof -
  let ?up = "unique_loop [] ap"
  have d: "distinct (map fst ?up)" by (rule unique_loop_distinct) simp
  have k: "keyed ?up" by (rule unique_loop_keyed) (rule keyed_Nil)
  have sres: "set res = snd ` set ?up" by (simp add: res_def py_sorted_def)
  show "set res \<subseteq> set ap"
  proof
    fix r assume "r \<in> set res"
    then obtain key where "map_of ?up key = Some r"
      using sres unique_values [OF d] by blast
    then show "r \<in> set ap" using unique_loop_from by fastforce
  qed
  have "distinct (map missing_skills (map snd ?up))"
    unfolding keyed_values [OF k d] by (rule d)
  then show "distinct (map missing_skills res)"
    unfolding res_def py_sorted_def by (simp only: distinct_map_sort_key)
  show c: "\<forall>c\<in>set ap. \<exists>r\<in>set res. missing_skills r = missing_skills c
            \<and> transition_difficulty r \<le> transition_difficulty c"
  proof
    fix c assume "c \<in> set ap"
    from unique_loop_covers [OF this, of "[]"] obtain r where
      r: "map_of ?up (missing_skills c) = Some r"
         "transition_difficulty r \<le> transition_difficulty c" by blast
    have "r \<in> set res" using r(1) sres unique_values [OF d] by blast
    moreover have "missing_skills r = missing_skills c" using k r(1) by (simp add: keyed_def)
    ultimately show "\<exists>r\<in>set res. missing_skills r = missing_skills c
            \<and> transition_difficulty r \<le> transition_difficulty c" using r(2) by blast
  qed
  show "\<forall>p\<in>set res. \<forall>c\<in>set ap. missing_skills c = missing_skills p
            \<longrightarrow> transition_difficulty p \<le> transition_difficulty c"
  proof (intro ballI impI)
    fix p c assume p: "p \<in> set res" and c: "c \<in> set ap"
      and e: "missing_skills c = missing_skills p"
    from p obtain key where key: "map_of ?up key = Some p"
      using sres unique_values [OF d] by blast
    then have "missing_skills p = key" using k by (simp add: keyed_def)
    from unique_loop_covers [OF c, of "[]"] obtain r where
      r: "map_of ?up (missing_skills c) = Some r"
         "transition_difficulty r \<le> transition_difficulty c" by blast
    have "r = p" using r(1) key e \<open>missing_skills p = key\<close> by simp
    then show "transition_difficulty p \<le> transition_difficulty c" using r(2) by simp
  qed
  have "sorted (map path_sort_key res)" by (simp add: res_def py_sorted_def)
  then show "sorted_wrt path_before res"
    by (induction res) (auto simp: path_sort_key_def less_eq_prod_def path_before_def)
qed

text \<open>
  C1: every path returned by \<open>find_transition_paths\<close> has difficulty below 1 and is one
  of the candidate paths; no two returned paths have the same set of missing skills; of
  the candidates sharing a set of missing skills the one kept has the lowest difficulty
  (every feasible candidate is represented by a returned path with the same missing
  skills and no greater difficulty, and no candidate with the same missing skills beats a
  returned path); the list is in ascending order of difficulty, ties in descending order
  of the number of common skills.
\<close>

theorem find_transition_paths_sound:
  "(\<forall>p \<in> set (find_transition_paths cat s t h).
       transition_difficulty p < 1
       \<and> p \<in> set (candidate_paths cat s t h)
       \<and> (\<forall>c \<in> set (candidate_paths cat s t h).
            missing_skills c = missing_skills p
            \<longrightarrow> transition_difficulty p \<le> transition_difficulty c))
   \<and> distinct (map missing_skills (find_transition_paths cat s t h))
   \<and> (\<forall>c \<in> set (candidate_paths cat s t h).
        transition_difficulty c < 1 \<longrightarrow>
        (\<exists>r \<in> set (find_transition_paths cat s t h).
           missing_skills r = missing_skills c
           \<and> transition_difficulty r \<le> transition_difficulty c))
   \<and> sorted_wrt path_before (find_transition_paths cat s t h)"
proof (cases "map_of cat s")
  case None
  then show ?thesis by (simp add: find_transition_paths_def candidate_paths_def)
next
  case sp: (Some sp)
  show ?thesis
  proof (cases "map_of cat t")
    case None
    then show ?thesis using sp by (simp add: find_transition_paths_def candidate_paths_def)
  next
    case tp: (Some tp)
    let ?direct = "create_transition_path s t (get_skill_ids sp) (get_skill_ids tp)"
    show ?thesis
    proof (cases "h \<le> 0")
      case True
      have c: "candidate_paths cat s t h = [?direct]"
        using sp tp True by (simp add: candidate_paths_def)
      have f: "find_transition_paths cat s t h
                 = (if transition_difficulty ?direct < 1 then [?direct] else [])"
        using sp tp True by (simp add: find_transition_paths_def Let_def)
      show ?thesis unfolding c f by simp
    next
      case False
      let ?cands = "?direct # intermediate_loop s t (get_skill_ids sp) (get_skill_ids tp) cat"
      let ?ap = "filter (\<lambda>p. transition_difficulty p < 1) ?cands"
      have c: "candidate_paths cat s t h = ?cands"
        using sp tp False by (simp add: candidate_paths_def)
      have f: "find_transition_paths cat s t h
                 = py_sorted path_sort_key (map snd (unique_loop [] ?ap))"
        using sp tp False by (simp add: find_transition_paths_def Let_def)
      note r = dedup_result [of ?ap]
      have ap: "\<And>p. p \<in> set ?ap \<longleftrightarrow> p \<in> set ?cands \<and> transition_difficulty p < 1"
        by (simp only: set_filter mem_Collect_eq)
      have 1: "\<forall>p \<in> set (find_transition_paths cat s t h).
          transition_difficulty p < 1 \<and> p \<in> set ?cands
          \<and> (\<forall>c \<in> set ?cands. missing_skills c = missing_skills p
                \<longrightarrow> transition_difficulty p \<le> transition_difficulty c)"
      proof (intro ballI conjI impI)
        fix p assume p: "p \<in> set (find_transition_paths cat s t h)"
        then have pin: "p \<in> set ?ap" using r(1) unfolding f by blast
        then show lt: "transition_difficulty p < 1" by (simp only: ap)
        show "p \<in> set ?cands" using pin by (simp only: ap)
        fix c assume cin: "c \<in> set ?cands" and e: "missing_skills c = missing_skills p"
        show "transition_difficulty p \<le> transition_difficulty c"
        proof (cases "transition_difficulty c < 1")
          case True
          then have "c \<in> set ?ap" using cin by (simp only: ap)
          then show ?thesis using r(4) p e unfolding f by blast
        next
          case False
          then show ?thesis using lt by simp
        qed
      qed
      have 3: "\<forall>c \<in> set ?cands. transition_difficulty c < 1 \<longrightarrow>
        (\<exists>r \<in> set (find_transition_paths cat s t h).
           missing_skills r = missing_skills c
           \<and> transition_difficulty r \<le> transition_difficulty c)"
      proof (intro ballI impI)
        fix c assume "c \<in> set ?cands" "transition_difficulty c < 1"
        then have "c \<in> set ?ap" by (simp only: ap)
        then show "\<exists>r \<in> set (find_transition_paths cat s t h).
           missing_skills r = missing_skills c
           \<and> transition_difficulty r \<le> transition_difficulty c"
          using r(3) unfolding f by blast
      qed
      show ?thesis unfolding c using 1 3 r(2) r(5) unfolding f by blast
    qed
  qed
qed

lemma cat3_paths: "map (\<lambda>p. (missing_skills p, transition_difficulty p, common_skills_count p)) (find_transition_paths cat3 ''A'' ''B'' 2) = [({''excel''}, 1/3, 4)]"
  by (auto simp add: cat3_def find_transition_paths_def job_A_def job_B_def job_C_def ids_mk_job Let_def
       create_transition_path_def combine_paths_def py_sorted_def card_insert_if insert_commute)

lemma cat3_candidates:
  "map (\<lambda>p. (missing_skills p, transition_difficulty p, common_skills_count p))
     (candidate_paths cat3 ''A'' ''B'' 2) = [({''excel''}, 1 / 2, 1), ({''excel''}, 1 / 3, 4)]"
  by (auto simp add: cat3_def candidate_paths_def job_A_def job_B_def job_C_def ids_mk_job
        Let_def create_transition_path_def combine_paths_def card_insert_if insert_commute)

theorem find_transition_paths_sound_witness:
  "map (\<lambda>p. (missing_skills p, transition_difficulty p, common_skills_count p))
     (candidate_paths cat3 ''A'' ''B'' 2) = [({''excel''}, 1 / 2, 1), ({''excel''}, 1 / 3, 4)]
   \<and> map (\<lambda>p. (missing_skills p, transition_difficulty p, common_skills_count p))
     (find_transition_paths cat3 ''A'' ''B'' 2) = [({''excel''}, 1 / 3, 4)]
   \<and> list_all (\<lambda>p. transition_difficulty p < 1) (find_transition_paths cat3 ''A'' ''B'' 2)
   \<and> distinct (map missing_skills (find_transition_paths cat3 ''A'' ''B'' 2))
   \<and> sorted_wrt path_before (find_transition_paths cat3 ''A'' ''B'' 2)"
proof -
  note t = find_transition_paths_sound [of cat3 "''A''" "''B''" 2]
  from t have a: "list_all (\<lambda>p. transition_difficulty p < 1)
                    (find_transition_paths cat3 ''A'' ''B'' 2)"
    unfolding list_all_iff by blast
  from t have d: "distinct (map missing_skills (find_transition_paths cat3 ''A'' ''B'' 2))"
    by blast
  from t have o: "sorted_wrt path_before (find_transition_paths cat3 ''A'' ''B'' 2)"
    by blast
  from cat3_candidates cat3_paths a d o show ?thesis by blast
qed

section \<open>Properties of the trend detector\<close>

lemma set_update_subset: "set (AList.update k v al) \<subseteq> insert (k, v) (set al)"
  by (induction al) auto

lemma analyze_series_cases:
  "analyze_series lib self values dates =
     (if int (length values) < min_periods self then Inr None
      else if values = [] \<or> dates = [] then Inl IndexError
      else case np_polyfit lib (map (\<lambda>i. Fin (real i)) [0..<length values]) values of
             Inl e \<Rightarrow> Inl e
           | Inr (slope, intercept) \<Rightarrow>
               Inr (Some (fitted_result lib self values dates slope intercept)))"
  by (simp add: analyze_series_def fitted_result_def pct_change_of_def Let_def
        split: sum.splits prod.splits)

lemma analyze_series_SomeD:
  assumes "analyze_series lib self values dates = Inr (Some r)"
  shows "min_periods self \<le> int (length values) \<and> values \<noteq> [] \<and> dates \<noteq> []
     \<and> (\<exists>slope intercept. r = fitted_result lib self values dates slope intercept)"
  using assms unfolding analyze_series_cases
  by (auto split: if_splits sum.splits prod.splits)




lemma analyze_series_total:
  assumes "min_periods self \<le> int (length values)" "values \<noteq> []" "dates \<noteq> []"
    and "np_polyfit lib (map (\<lambda>i. Fin (real i)) [0..<length values]) values = Inr fit"
  shows "analyze_series lib self values dates
           = Inr (Some (fitted_result lib self values dates (fst fit) (snd fit)))"
  using assms unfolding analyze_series_cases by (cases fit) simp

lemma trends_loop_invariant:
  assumes "trends_loop lib self df gs acc = Inr res"
    and "\<forall>(k, r) \<in> set acc. Q k r"
    and "\<And>g r. g \<in> set gs \<Longrightarrow> min_periods self \<le> int (length (group_rows g df)) \<Longrightarrow>
           analyze_series lib self (map val (group_rows g df)) (map date (group_rows g df))
             = Inr (Some r) \<Longrightarrow> Q (join_comma g) r"
  shows "\<forall>(k, r) \<in> set res. Q k r"
  using assms
proof (induction gs arbitrary: acc)
  case Nil
  then show ?case by simp
next
  case (Cons g gs)
  let ?gdf = "group_rows g df"
  show ?case
  proof (cases "int (length ?gdf) < min_periods self")
    case True
    then have "trends_loop lib self df gs acc = Inr res"
      using Cons.prems(1) by (simp add: Let_def)
    then show ?thesis using Cons.IH Cons.prems(2,3) by simp
  next
    case False
    show ?thesis
    proof (cases "analyze_series lib self (map val ?gdf) (map date ?gdf)")
      case (Inl e)
      then show ?thesis using Cons.prems(1) False by (simp add: Let_def)
    next
      case (Inr ro)
      show ?thesis
      proof (cases ro)
        case None
        then have "trends_loop lib self df gs acc = Inr res"
          using Cons.prems(1) False Inr by (simp add: Let_def)
        then show ?thesis using Cons.IH Cons.prems(2,3) by simp
      next
        case (Some r)
        then have l: "trends_loop lib self df gs (AList.update (join_comma g) r acc) = Inr res"
          using Cons.prems(1) False Inr by (simp add: Let_def)
        have "Q (join_comma g) r"
          using Cons.prems(3) [of g r] False Inr Some by simp
        then have "\<forall>(k, r) \<in> set (AList.update (join_comma g) r acc). Q k r"
          using Cons.prems(2) set_update_subset [of "join_comma g" r acc] by auto
        then show ?thesis using Cons.IH [OF l] Cons.prems(3) by simp
      qed
    qed
  qed
qed

lemma detect_trends_ungrouped:
  assumes "\<not> (df = [] \<or> int (length df) < min_periods self)" "\<not> truthy gc"
  shows "detect_trends lib self df gc =
     (case analyze_series lib self (map val (sort_values_date lib df))
             (map date (sort_values_date lib df)) of
        Inl e \<Rightarrow> Inl e
      | Inr None \<Rightarrow> Inr []
      | Inr (Some result) \<Rightarrow> Inr [(''overall'', result)])"
  using assms by (simp add: detect_trends_def Let_def)

lemma detect_trends_grouped:
  assumes "\<not> (df = [] \<or> int (length df) < min_periods self)" "truthy gc"
  shows "detect_trends lib self df gc =
     trends_loop lib self (sort_values_group_date lib df)
       (group_names (sort_values_group_date lib df)) []"
  using assms by (simp add: detect_trends_def Let_def)

lemma detect_trends_short:
  assumes "df = [] \<or> int (length df) < min_periods self"
  shows "detect_trends lib self df gc = Inr []"
  using assms by (simp add: detect_trends_def)

text \<open>Every entry of the result is the analysis of one series of the table.\<close>

lemma detect_trends_provenance:
  assumes "detect_trends lib self df gc = Inr res"
  shows "\<forall>(k, r) \<in> set res. \<exists>rows. (k, rows) \<in> set (table_series lib df gc)
           \<and> min_periods self \<le> int (length rows)
           \<and> analyze_series lib self (map val rows) (map date rows) = Inr (Some r)"
proof (cases "df = [] \<or> int (length df) < min_periods self")
  case True
  then show ?thesis using assms by (simp add: detect_trends_short)
next
  case long: False
  show ?thesis
  proof (cases "truthy gc")
    case False
    let ?s = "sort_values_date lib df"
    have ts: "table_series lib df gc = [(''overall'', ?s)]"
      using False by (simp add: table_series_def)
    show ?thesis
    proof (cases "analyze_series lib self (map val ?s) (map date ?s)")
      case (Inl e)
      then show ?thesis using assms unfolding detect_trends_ungrouped [OF long False] by simp
    next
      case (Inr ro)
      show ?thesis
      proof (cases ro)
        case None
        then show ?thesis
          using assms Inr unfolding detect_trends_ungrouped [OF long False] by auto
      next
        case (Some r)
        then have res: "res = [(''overall'', r)]"
          using assms Inr unfolding detect_trends_ungrouped [OF long False] by simp
        have a: "analyze_series lib self (map val ?s) (map date ?s) = Inr (Some r)"
          using Inr Some by simp
        from analyze_series_SomeD [OF a] have "min_periods self \<le> int (length ?s)" by simp
        with a show ?thesis unfolding res ts by simp
      qed
    qed
  next
    case True
    let ?s = "sort_values_group_date lib df"
    have l: "trends_loop lib self ?s (group_names ?s) [] = Inr res"
      using assms unfolding detect_trends_grouped [OF long True] .
    have ts: "table_series lib df gc
                = map (\<lambda>g. (join_comma g, group_rows g ?s)) (group_names ?s)"
      using True by (simp add: table_series_def)
    show ?thesis
    proof (rule trends_loop_invariant [OF l])
      show "\<forall>(k, r) \<in> set []. \<exists>rows. (k, rows) \<in> set (table_series lib df gc)
           \<and> min_periods self \<le> int (length rows)
           \<and> analyze_series lib self (map val rows) (map date rows) = Inr (Some r)" by simp
    next
      fix g r
      assume g: "g \<in> set (group_names ?s)"
        and m: "min_periods self \<le> int (length (group_rows g ?s))"
        and a: "analyze_series lib self (map val (group_rows g ?s)) (map date (group_rows g ?s))
                  = Inr (Some r)"
      from g have "(join_comma g, group_rows g ?s) \<in> set (table_series lib df gc)"
        unfolding ts by auto
      with m a show "\<exists>rows. (join_comma g, rows) \<in> set (table_series lib df gc)
           \<and> min_periods self \<le> int (length rows)
           \<and> analyze_series lib self (map val rows) (map date rows) = Inr (Some r)"
        by blast
    qed
  qed
qed

subsection \<open>The library without rounding\<close>

lemma keeps_rows_exact: "keeps_rows exact_library"
  by (simp add: keeps_rows_def exact_library_def)

lemma cancels_exact: "cancels exact_library"
  by (simp add: cancels_def exact_library_def exact2_def exact_div_def)

lemma upt3: "[0..<3] = [0, 1, 2]" by (simp add: upt_rec)

lemmas exact_simps =
  exact_library_def exact2_def exact_div_def exact_sum_def exact_mean_def exact_std_def
  exact_polyfit_def mean_of_def power2_eq_square








lemma constant_ends:
  assumes "set vs \<subseteq> {c}" "vs \<noteq> []"
  shows "hd vs = c" "last vs = c"
proof -
  from assms show "hd vs = c" by (cases vs) auto
  from assms show "last vs = c" using last_in_set by fastforce
qed

lemma constant_pct_change:
  assumes "cancels lib"
  shows "pct_change_of lib (Fin c) (Fin c) = Fin 0"
  using assms by (simp add: pct_change_of_def cancels_def)

lemma fitted_result_constant:
  assumes "cancels lib" "fl_less (Fin 0) (threshold self)"
    and "set values \<subseteq> {Fin c}" "values \<noteq> []"
  shows "direction (fitted_result lib self values dates slope intercept) = STABLE"
proof -
  have "pct_change_of lib (hd values) (last values) = Fin 0"
    unfolding constant_ends [OF assms(3,4)] by (rule constant_pct_change [OF assms(1)])
  then show ?thesis using assms(2) by (simp add: fitted_result_def Let_def)
qed

lemma dom_update_keeps: "fst ` set al \<subseteq> fst ` set (AList.update k v al)"
  by (induction al) auto

lemma dom_update_has: "k \<in> fst ` set (AList.update k v al)"
  by (induction al) auto

lemma trends_loop_keeps:
  assumes "trends_loop lib self df gs acc = Inr res"
  shows "fst ` set acc \<subseteq> fst ` set res"
  using assms
proof (induction gs arbitrary: acc)
  case Nil
  then show ?case by simp
next
  case (Cons g gs)
  let ?gdf = "group_rows g df"
  show ?case
  proof (cases "int (length ?gdf) < min_periods self")
    case True
    then have "trends_loop lib self df gs acc = Inr res"
      using Cons.prems by (simp add: Let_def)
    then show ?thesis by (rule Cons.IH)
  next
    case False
    show ?thesis
    proof (cases "analyze_series lib self (map val ?gdf) (map date ?gdf)")
      case (Inl e)
      then show ?thesis using Cons.prems False by (simp add: Let_def)
    next
      case (Inr ro)
      show ?thesis
      proof (cases ro)
        case None
        then have "trends_loop lib self df gs acc = Inr res"
          using Cons.prems False Inr by (simp add: Let_def)
        then show ?thesis by (rule Cons.IH)
      next
        case (Some r)
        then have "trends_loop lib self df gs (AList.update (join_comma g) r acc) = Inr res"
          using Cons.prems False Inr by (simp add: Let_def)
        from Cons.IH [OF this] show ?thesis
          using dom_update_keeps [of acc "join_comma g" r] by blast
      qed
    qed
  qed
qed

lemma analyze_series_not_None:
  assumes "min_periods self \<le> int (length vs)"
  shows "analyze_series lib self vs ds \<noteq> Inr None"
  using assms unfolding analyze_series_def
  by (auto simp: Let_def split: sum.splits prod.splits)

lemma trends_loop_keys:
  assumes "trends_loop lib self df gs acc = Inr res"
    and "g \<in> set gs" "min_periods self \<le> int (length (group_rows g df))"
  shows "join_comma g \<in> fst ` set res"
  using assms
proof (induction gs arbitrary: acc)
  case Nil
  then show ?case by simp
next
  case (Cons h gs)
  let ?hdf = "group_rows h df"
  show ?case
  proof (cases "int (length ?hdf) < min_periods self")
    case True
    then have l: "trends_loop lib self df gs acc = Inr res"
      using Cons.prems(1) by (simp add: Let_def)
    from True Cons.prems(2,3) have "g \<in> set gs" by auto
    from Cons.IH [OF l this Cons.prems(3)] show ?thesis .
  next
    case False
    show ?thesis
    proof (cases "analyze_series lib self (map val ?hdf) (map date ?hdf)")
      case (Inl e)
      then show ?thesis using Cons.prems(1) False by (simp add: Let_def)
    next
      case (Inr ro)
      show ?thesis
      proof (cases ro)
        case None
        then have "analyze_series lib self (map val ?hdf) (map date ?hdf) = Inr None"
          using Inr by simp
        moreover have "min_periods self \<le> int (length (map val ?hdf))" using False by simp
        ultimately show ?thesis using analyze_series_not_None by blast
      next
        case (Some r)
        then have l: "trends_loop lib self df gs (AList.update (join_comma h) r acc) = Inr res"
          using Cons.prems(1) False Inr by (simp add: Let_def)
        show ?thesis
        proof (cases "g = h")
          case True
          have "join_comma h \<in> fst ` set (AList.update (join_comma h) r acc)"
            by (rule dom_update_has)
          then show ?thesis using trends_loop_keeps [OF l] True by blast
        next
          case False
          then have "g \<in> set gs" using Cons.prems(2) by simp
          from Cons.IH [OF l this Cons.prems(3)] show ?thesis .
        qed
      qed
    qed
  qed
qed

lemma kept_length:
  assumes "keeps_rows lib"
  shows "length (sort_values_date lib df) = length df"
    and "length (sort_values_group_date lib df) = length df"
proof -
  have "mset (sort_values_date lib df) = mset df" using assms by (simp add: keeps_rows_def)
  then show "length (sort_values_date lib df) = length df" by (rule mset_eq_length)
  have "mset (sort_values_group_date lib df) = mset df"
    using assms by (simp add: keeps_rows_def)
  then show "length (sort_values_group_date lib df) = length df" by (rule mset_eq_length)
qed

lemma detect_trends_overall:
  assumes "keeps_rows lib" "\<not> truthy gc" "df \<noteq> []" "min_periods self \<le> int (length df)"
    and "np_polyfit lib (map (\<lambda>i. Fin (real i)) [0..<length df])
           (map val (sort_values_date lib df)) = Inr fit"
  shows "\<exists>r. detect_trends lib self df gc = Inr [(''overall'', r)]"
proof -
  let ?s = "sort_values_date lib df"
  have len: "length ?s = length df" by (rule kept_length(1) [OF assms(1)])
  have long: "\<not> (df = [] \<or> int (length df) < min_periods self)" using assms(3,4) by simp
  have ne: "map val ?s \<noteq> []" "map date ?s \<noteq> []" using len assms(3) by auto
  have "analyze_series lib self (map val ?s) (map date ?s)
          = Inr (Some (fitted_result lib self (map val ?s) (map date ?s) (fst fit) (snd fit)))"
    by (rule analyze_series_total) (use assms(4,5) len ne in simp_all)
  then show ?thesis unfolding detect_trends_ungrouped [OF long assms(2)] by simp
qed

lemma detect_trends_group_present:
  assumes "keeps_rows lib" "truthy gc" "detect_trends lib self df gc = Inr res"
    and "g \<in> set (group_names (sort_values_group_date lib df))"
    and "min_periods self \<le> int (length (group_rows g (sort_values_group_date lib df)))"
  shows "join_comma g \<in> fst ` set res"
proof -
  let ?s = "sort_values_group_date lib df"
  have len: "length ?s = length df" by (rule kept_length(2) [OF assms(1)])
  from assms(4) have "group_rows g ?s \<noteq> []"
    by (auto simp: group_names_def group_rows_def filter_empty_conv)
  then have pos: "0 < length (group_rows g ?s)" by simp
  have "length (group_rows g ?s) \<le> length ?s" by (simp add: group_rows_def)
  with assms(5) pos len have long: "\<not> (df = [] \<or> int (length df) < min_periods self)"
    by auto
  have "trends_loop lib self ?s (group_names ?s) [] = Inr res"
    using assms(3) unfolding detect_trends_grouped [OF long assms(2)] .
  from trends_loop_keys [OF this assms(4,5)] show ?thesis .
qed

text \<open>
  C3, as amended: for a detector whose threshold is positive, the trend result of a
  constant series of finite values has direction STABLE. This holds for a series handed
  to \<open>_analyze_series\<close>, and a result exists when the series has at least min_periods
  observations and the fit returns. Every entry of the mapping that \<open>detect_trends\<close>
  returns is the analysis of one series of the table (the whole table, or one group)
  and is STABLE when that series is constant, whatever the other groups hold. Without
  grouping the mapping has the entry \<open>overall\<close> when the table has at least min_periods
  rows and the fit returns; with grouping the key of every group of at least
  min_periods rows is in the returned mapping. The confidence is not part of the
  statement: it is computed from rounded sums.
\<close>

theorem constant_series_stable:
  assumes "cancels lib" "fl_less (Fin 0) (threshold self)"
  shows "(set values \<subseteq> {Fin c} \<and> analyze_series lib self values dates = Inr (Some r) \<longrightarrow>
            direction r = STABLE)
     \<and> (set values \<subseteq> {Fin c} \<and> min_periods self \<le> int (length values)
          \<and> values \<noteq> [] \<and> dates \<noteq> []
          \<and> np_polyfit lib (map (\<lambda>i. Fin (real i)) [0..<length values]) values = Inr fit \<longrightarrow>
            (\<exists>r. analyze_series lib self values dates = Inr (Some r) \<and> direction r = STABLE))
     \<and> (detect_trends lib self df group_cols = Inr res \<longrightarrow>
          (\<forall>(k, r) \<in> set res. \<exists>rows. (k, rows) \<in> set (table_series lib df group_cols)
              \<and> min_periods self \<le> int (length rows)
              \<and> analyze_series lib self (map val rows) (map date rows) = Inr (Some r)
              \<and> ((\<exists>c. val ` set rows \<subseteq> {Fin c}) \<longrightarrow> direction r = STABLE)))
     \<and> (keeps_rows lib \<and> \<not> truthy group_cols \<and> df \<noteq> []
          \<and> min_periods self \<le> int (length df)
          \<and> np_polyfit lib (map (\<lambda>i. Fin (real i)) [0..<length df])
               (map val (sort_values_date lib df)) = Inr fit \<longrightarrow>
            (\<exists>r. detect_trends lib self df group_cols = Inr [(''overall'', r)]))
     \<and> (keeps_rows lib \<and> truthy group_cols \<and> detect_trends lib self df group_cols = Inr res
          \<and> g \<in> set (group_names (sort_values_group_date lib df))
          \<and> min_periods self \<le> int (length (group_rows g (sort_values_group_date lib df)))
          \<longrightarrow> join_comma g \<in> fst ` set res)"
proof (intro conjI impI)
  assume a: "set values \<subseteq> {Fin c} \<and> analyze_series lib self values dates = Inr (Some r)"
  from analyze_series_SomeD [of lib self "values" dates r] a obtain slope intercept where
    ne: "values \<noteq> []" and r: "r = fitted_result lib self values dates slope intercept"
    by blast
  show "direction r = STABLE"
    unfolding r using fitted_result_constant [OF assms _ ne] a by blast
next
  assume a: "set values \<subseteq> {Fin c} \<and> min_periods self \<le> int (length values)
          \<and> values \<noteq> [] \<and> dates \<noteq> []
          \<and> np_polyfit lib (map (\<lambda>i. Fin (real i)) [0..<length values]) values = Inr fit"
  then have "analyze_series lib self values dates
               = Inr (Some (fitted_result lib self values dates (fst fit) (snd fit)))"
    using analyze_series_total by blast
  moreover have "direction (fitted_result lib self values dates (fst fit) (snd fit)) = STABLE"
    using fitted_result_constant [OF assms] a by blast
  ultimately show "\<exists>r. analyze_series lib self values dates = Inr (Some r)
                      \<and> direction r = STABLE" by blast
next
  assume dt: "detect_trends lib self df group_cols = Inr res"
  show "\<forall>(k, r) \<in> set res. \<exists>rows. (k, rows) \<in> set (table_series lib df group_cols)
              \<and> min_periods self \<le> int (length rows)
              \<and> analyze_series lib self (map val rows) (map date rows) = Inr (Some r)
              \<and> ((\<exists>c. val ` set rows \<subseteq> {Fin c}) \<longrightarrow> direction r = STABLE)"
  proof (clarify)
    fix k r assume "(k, r) \<in> set res"
    with detect_trends_provenance [OF dt] obtain rows where
      t: "(k, rows) \<in> set (table_series lib df group_cols)"
      and m: "min_periods self \<le> int (length rows)"
      and a: "analyze_series lib self (map val rows) (map date rows) = Inr (Some r)"
      by blast
    from analyze_series_SomeD [OF a] obtain slope intercept where
      ne: "map val rows \<noteq> []"
      and r: "r = fitted_result lib self (map val rows) (map date rows) slope intercept"
      by blast
    have "direction r = STABLE" if "\<exists>c. val ` set rows \<subseteq> {Fin c}"
    proof -
      from that obtain c where "set (map val rows) \<subseteq> {Fin c}" by auto
      from fitted_result_constant [OF assms this ne] show ?thesis unfolding r .
    qed
    with t m a show "\<exists>rows. (k, rows) \<in> set (table_series lib df group_cols)
              \<and> min_periods self \<le> int (length rows)
              \<and> analyze_series lib self (map val rows) (map date rows) = Inr (Some r)
              \<and> ((\<exists>c. val ` set rows \<subseteq> {Fin c}) \<longrightarrow> direction r = STABLE)" by blast
  qed
next
  assume "keeps_rows lib \<and> \<not> truthy group_cols \<and> df \<noteq> []
          \<and> min_periods self \<le> int (length df)
          \<and> np_polyfit lib (map (\<lambda>i. Fin (real i)) [0..<length df])
               (map val (sort_values_date lib df)) = Inr fit"
  then show "\<exists>r. detect_trends lib self df group_cols = Inr [(''overall'', r)]"
    using detect_trends_overall by blast
next
  assume "keeps_rows lib \<and> truthy group_cols \<and> detect_trends lib self df group_cols = Inr res
          \<and> g \<in> set (group_names (sort_values_group_date lib df))
          \<and> min_periods self \<le> int (length (group_rows g (sort_values_group_date lib df)))"
  then show "join_comma g \<in> fst ` set res"
    using detect_trends_group_present by blast
qed

lemma flat_series:
  "analyze_series exact_library default_detector [Fin 3, Fin 3, Fin 3] [1, 2, 3]
     = Inr (Some flat_result)"
  by (simp add: analyze_series_def default_detector_def flat_result_def Let_def upt3
        exact_simps)

lemma flat_eval:
  "detect_trends exact_library default_detector flat_rows None
     = Inr [(''overall'', flat_result)]"
  by (simp add: detect_trends_def truthy_def flat_rows_def mk_row_def Let_def
        default_detector_def analyze_series_def flat_result_def upt3 exact_simps)

lemma flat_fit:
  "np_polyfit exact_library (map (\<lambda>i. Fin (real i)) [0..<length [Fin 3, Fin 3, Fin (3::real)]])
     [Fin 3, Fin 3, Fin 3] = Inr (Fin 0, Fin 3)"
  by (simp add: upt3 exact_simps Let_def)

lemma level_sorted:
  "sort_values_group_date exact_library level_rows
     = [mk_row ''men'' 1 3, mk_row ''men'' 2 3, mk_row ''men'' 3 3,
        mk_row ''women'' 1 5, mk_row ''women'' 2 5, mk_row ''women'' 3 5]"
  by (simp add: exact_library_def level_rows_def mk_row_def less_eq_prod_def less_prod_def)

lemma level_series:
  "analyze_series exact_library default_detector [Fin 5, Fin 5, Fin 5] [1, 2, 3]
     = Inr (Some level_result)"
  by (simp add: analyze_series_def default_detector_def level_result_def Let_def upt3
        exact_simps)

lemma level_names:
  "group_names (sort_values_group_date exact_library level_rows) = [[''men''], [''women'']]"
  by (simp add: level_sorted) (simp add: group_names_def mk_row_def)

lemma level_groups:
  "group_rows [''men''] (sort_values_group_date exact_library level_rows)
     = [mk_row ''men'' 1 3, mk_row ''men'' 2 3, mk_row ''men'' 3 3]"
  "group_rows [''women''] (sort_values_group_date exact_library level_rows)
     = [mk_row ''women'' 1 5, mk_row ''women'' 2 5, mk_row ''women'' 3 5]"
  by (simp_all add: level_sorted) (simp_all add: group_rows_def mk_row_def)

lemma level_eval:
  "detect_trends exact_library default_detector level_rows (Some [''demographic''])
     = Inr [(''men'', flat_result), (''women'', level_result)]"
proof -
  have long: "\<not> (level_rows = [] \<or> int (length level_rows) < min_periods default_detector)"
    by (simp add: level_rows_def default_detector_def)
  have m: "\<not> 3 < min_periods default_detector" by (simp add: default_detector_def)
  have a: "analyze_series exact_library default_detector
             (map val [mk_row ''men'' 1 3, mk_row ''men'' 2 3, mk_row ''men'' 3 3])
             (map date [mk_row ''men'' 1 3, mk_row ''men'' 2 3, mk_row ''men'' 3 3])
           = Inr (Some flat_result)"
          "analyze_series exact_library default_detector
             (map val [mk_row ''women'' 1 5, mk_row ''women'' 2 5, mk_row ''women'' 3 5])
             (map date [mk_row ''women'' 1 5, mk_row ''women'' 2 5, mk_row ''women'' 3 5])
           = Inr (Some level_result)"
    using flat_series level_series by (simp_all add: mk_row_def)
  show ?thesis
    unfolding detect_trends_grouped [OF long, of "Some [''demographic'']" exact_library,
                simplified truthy_def, simplified] level_names
    by (simp add: Let_def level_groups m a del: list.map)
qed

lemma level_table:
  "table_series exact_library level_rows (Some [''demographic''])
     = [(''men'', [mk_row ''men'' 1 3, mk_row ''men'' 2 3, mk_row ''men'' 3 3]),
        (''women'', [mk_row ''women'' 1 5, mk_row ''women'' 2 5, mk_row ''women'' 3 5])]"
  by (simp add: table_series_def truthy_def level_names level_groups)

theorem constant_series_stable_witness:
  "cancels exact_library
   \<and> keeps_rows exact_library
   \<and> fl_less (Fin 0) (threshold default_detector)
   \<and> set [Fin 3, Fin 3, Fin 3] \<subseteq> {Fin 3}
   \<and> min_periods default_detector \<le> int (length [Fin 3, Fin 3, Fin (3::real)])
   \<and> np_polyfit exact_library
        (map (\<lambda>i. Fin (real i)) [0..<length [Fin 3, Fin 3, Fin (3::real)]])
        [Fin 3, Fin 3, Fin 3] = Inr (Fin 0, Fin 3)
   \<and> analyze_series exact_library default_detector [Fin 3, Fin 3, Fin 3] [1, 2, 3]
       = Inr (Some flat_result)
   \<and> direction flat_result = STABLE
   \<and> detect_trends exact_library default_detector flat_rows None
       = Inr [(''overall'', flat_result)]
   \<and> detect_trends exact_library default_detector level_rows (Some [''demographic''])
       = Inr [(''men'', flat_result), (''women'', level_result)]
   \<and> table_series exact_library level_rows (Some [''demographic''])
       = [(''men'', [mk_row ''men'' 1 3, mk_row ''men'' 2 3, mk_row ''men'' 3 3]),
          (''women'', [mk_row ''women'' 1 5, mk_row ''women'' 2 5, mk_row ''women'' 3 5])]
   \<and> direction level_result = STABLE
   \<and> ''women'' \<in> fst ` set [(''men'', flat_result), (''women'', level_result)]"
proof -
  have p: "fl_less (Fin 0) (threshold default_detector)" by (simp add: default_detector_def)
  have c: "set [Fin 3, Fin 3, Fin 3] \<subseteq> {Fin 3}" by simp
  have m: "min_periods default_detector \<le> int (length [Fin 3, Fin 3, Fin (3::real)])"
    by (simp add: default_detector_def)
  note t = constant_series_stable [OF cancels_exact p,
             of "[Fin 3, Fin 3, Fin 3]" 3 "[1, 2, 3]" flat_result "(Fin 0, Fin 3)"
                flat_rows None "[(''overall'', flat_result)]" "[''total'']"]
  note u = constant_series_stable [OF cancels_exact p,
             of "[Fin 5, Fin 5, Fin 5]" 5 "[1, 2, 3]" level_result "(Fin 0, Fin 5)"
                level_rows "Some [''demographic'']"
                "[(''men'', flat_result), (''women'', level_result)]" "[''women'']"]
  from t c flat_series have d: "direction flat_result = STABLE" by blast
  from u level_eval
  have "\<forall>(k, r) \<in> set [(''men'', flat_result), (''women'', level_result)].
          \<exists>rows. (k, rows) \<in> set (table_series exact_library level_rows (Some [''demographic'']))
            \<and> min_periods default_detector \<le> int (length rows)
            \<and> analyze_series exact_library default_detector (map val rows) (map date rows)
                = Inr (Some r)
            \<and> ((\<exists>c. val ` set rows \<subseteq> {Fin c}) \<longrightarrow> direction r = STABLE)"
    by blast
  then have "(\<exists>c. val ` set [mk_row ''women'' 1 5, mk_row ''women'' 2 5, mk_row ''women'' 3 5]
                     \<subseteq> {Fin c}) \<longrightarrow> direction level_result = STABLE"
    unfolding level_table by simp
  moreover have "val ` set [mk_row ''women'' 1 5, mk_row ''women'' 2 5, mk_row ''women'' 3 5]
                   \<subseteq> {Fin 5}" by (simp add: mk_row_def)
  ultimately have e: "direction level_result = STABLE" by blast
  have g: "[''women''] \<in> set (group_names (sort_values_group_date exact_library level_rows))"
    by (simp add: level_names)
  have l: "min_periods default_detector
             \<le> int (length (group_rows [''women'']
                               (sort_values_group_date exact_library level_rows)))"
    by (simp add: level_groups default_detector_def)
  have tr: "truthy (Some [''demographic''])" by (simp add: truthy_def)
  from u keeps_rows_exact tr level_eval g l
  have "join_comma [''women'']
          \<in> fst ` set [(''men'', flat_result), (''women'', level_result)]" by blast
  then have k: "''women'' \<in> fst ` set [(''men'', flat_result), (''women'', level_result)]"
    by simp
  from cancels_exact keeps_rows_exact p c m flat_fit flat_series d flat_eval level_eval
       level_table e k
  show ?thesis by blast
qed

text \<open>
  With threshold 0 the constant series 3, 3, 3 is classified DECREASING: the absolute
  change 0 is not below the threshold, and it is not positive.
\<close>

theorem constant_series_zero_threshold_counterexample:
  "detect_trends exact_library \<lparr> min_periods = 3, threshold = Fin 0 \<rparr> flat_rows None
     = Inr [(''overall'', \<lparr> direction = DECREASING, magnitude = Fin 0, confidence = Fin 0,
                             start_value = Fin 3, end_value = Fin 3, period = (1, 3) \<rparr>)]"
  by (simp add: detect_trends_def truthy_def flat_rows_def mk_row_def Let_def
        analyze_series_def upt3 exact_simps)

lemma trends_loop_skips_short:
  "trends_loop lib self df gs acc
     = trends_loop lib self df
         (filter (\<lambda>g. min_periods self \<le> int (length (group_rows g df))) gs) acc"
proof (induction gs arbitrary: acc)
  case Nil
  then show ?case by simp
next
  case (Cons g gs)
  show ?case
  proof (cases "int (length (group_rows g df)) < min_periods self")
    case True
    then show ?thesis using Cons.IH by (simp add: Let_def)
  next
    case False
    then show ?thesis using Cons.IH
      by (simp add: Let_def split: sum.splits option.splits)
  qed
qed

lemma sorted_table_groups:
  assumes "keeps_rows lib"
  shows "length (group_rows g (sort_values_group_date lib df)) = length (group_rows g df)"
    and "set (group_names (sort_values_group_date lib df)) = group_key ` set df"
proof -
  have m: "mset (sort_values_group_date lib df) = mset df"
    using assms by (simp add: keeps_rows_def)
  have "mset (group_rows g (sort_values_group_date lib df)) = mset (group_rows g df)"
    unfolding group_rows_def mset_filter m ..
  then show "length (group_rows g (sort_values_group_date lib df)) = length (group_rows g df)"
    by (rule mset_eq_length)
  have "set (sort_values_group_date lib df) = set df" using m by (rule mset_eq_setD)
  then show "set (group_names (sort_values_group_date lib df)) = group_key ` set df"
    by (simp add: group_names_def)
qed

text \<open>
  C8: on a table that is empty or has fewer than min_periods rows, \<open>detect_trends\<close>
  returns the empty mapping, not an error. Every entry of a returned mapping is the
  analysis of a series of the table with at least min_periods rows, so no entry comes
  from a shorter group; with grouping the call equals the loop run over the groups with
  at least min_periods rows only, so a shorter group contributes neither an entry nor
  an error. The groups and their sizes are those of the caller's table, the sort
  keeping its rows.
\<close>

theorem detect_trends_insufficient_data:
  "(df = [] \<or> int (length df) < min_periods self \<longrightarrow>
      detect_trends lib self df group_cols = Inr [])
   \<and> (detect_trends lib self df group_cols = Inr res \<longrightarrow>
        (\<forall>(k, r) \<in> set res. \<exists>rows. (k, rows) \<in> set (table_series lib df group_cols)
            \<and> min_periods self \<le> int (length rows)
            \<and> analyze_series lib self (map val rows) (map date rows) = Inr (Some r)))
   \<and> (truthy group_cols \<and> \<not> (df = [] \<or> int (length df) < min_periods self) \<longrightarrow>
        detect_trends lib self df group_cols
          = trends_loop lib self (sort_values_group_date lib df)
              (filter (\<lambda>g. min_periods self
                            \<le> int (length (group_rows g (sort_values_group_date lib df))))
                 (group_names (sort_values_group_date lib df))) [])
   \<and> (keeps_rows lib \<longrightarrow>
        length (group_rows g (sort_values_group_date lib df)) = length (group_rows g df)
        \<and> set (group_names (sort_values_group_date lib df)) = group_key ` set df)"
proof (intro conjI impI)
  assume "df = [] \<or> int (length df) < min_periods self"
  then show "detect_trends lib self df group_cols = Inr []" by (rule detect_trends_short)
next
  assume "detect_trends lib self df group_cols = Inr res"
  then show "\<forall>(k, r) \<in> set res. \<exists>rows. (k, rows) \<in> set (table_series lib df group_cols)
            \<and> min_periods self \<le> int (length rows)
            \<and> analyze_series lib self (map val rows) (map date rows) = Inr (Some r)"
    by (rule detect_trends_provenance)
next
  assume a: "truthy group_cols \<and> \<not> (df = [] \<or> int (length df) < min_periods self)"
  then have "detect_trends lib self df group_cols
      = trends_loop lib self (sort_values_group_date lib df)
          (group_names (sort_values_group_date lib df)) []"
    using detect_trends_grouped by blast
  also have "\<dots> = trends_loop lib self (sort_values_group_date lib df)
              (filter (\<lambda>g. min_periods self
                            \<le> int (length (group_rows g (sort_values_group_date lib df))))
                 (group_names (sort_values_group_date lib df))) []"
    by (rule trends_loop_skips_short)
  finally show "detect_trends lib self df group_cols
          = trends_loop lib self (sort_values_group_date lib df)
              (filter (\<lambda>g. min_periods self
                            \<le> int (length (group_rows g (sort_values_group_date lib df))))
                 (group_names (sort_values_group_date lib df))) []" .
next
  assume s: "keeps_rows lib"
  show "length (group_rows g (sort_values_group_date lib df)) = length (group_rows g df)"
    by (rule sorted_table_groups(1) [OF s])
  show "set (group_names (sort_values_group_date lib df)) = group_key ` set df"
    by (rule sorted_table_groups(2) [OF s])
qed

lemma grouped_sorted:
  "sort_values_group_date exact_library grouped_rows
     = [mk_row ''men'' 1 4, mk_row ''men'' 2 (9 / 2), mk_row ''men'' 3 6,
        mk_row ''women'' 1 5, mk_row ''women'' 2 6]"
  by (simp add: exact_library_def grouped_rows_def mk_row_def less_eq_prod_def less_prod_def)

lemma men_series:
  "analyze_series exact_library default_detector [Fin 4, Fin (9 / 2), Fin 6] [1, 2, 3]
     = Inr (Some men_result)"
  by (simp add: analyze_series_def default_detector_def men_result_def Let_def upt3
        exact_simps)

lemma grouped_eval:
  "detect_trends exact_library default_detector grouped_rows (Some [''demographic''])
     = Inr [(''men'', men_result)]"
  by (simp add: detect_trends_def truthy_def grouped_sorted Let_def)
     (simp add: grouped_rows_def mk_row_def group_names_def group_rows_def
        men_series [unfolded default_detector_def] default_detector_def)

lemma grouped_series:
  "table_series exact_library grouped_rows (Some [''demographic''])
     = [(''men'', [mk_row ''men'' 1 4, mk_row ''men'' 2 (9 / 2), mk_row ''men'' 3 6]),
        (''women'', [mk_row ''women'' 1 5, mk_row ''women'' 2 6])]"
  by (simp add: table_series_def truthy_def grouped_sorted)
     (simp add: mk_row_def group_names_def group_rows_def)

theorem detect_trends_insufficient_data_witness:
  "int (length (take 2 grouped_rows)) < min_periods default_detector
   \<and> detect_trends exact_library default_detector (take 2 grouped_rows)
       (Some [''demographic'']) = Inr []
   \<and> detect_trends exact_library default_detector grouped_rows (Some [''demographic''])
       = Inr [(''men'', men_result)]
   \<and> table_series exact_library grouped_rows (Some [''demographic''])
       = [(''men'', [mk_row ''men'' 1 4, mk_row ''men'' 2 (9 / 2), mk_row ''men'' 3 6]),
          (''women'', [mk_row ''women'' 1 5, mk_row ''women'' 2 6])]
   \<and> keeps_rows exact_library
   \<and> length (group_rows [''women''] (sort_values_group_date exact_library grouped_rows)) = 2
   \<and> length (group_rows [''women''] grouped_rows) = 2"
proof -
  note s = detect_trends_insufficient_data
             [of "take 2 grouped_rows" default_detector exact_library "Some [''demographic'']"]
  note t = detect_trends_insufficient_data
             [of grouped_rows default_detector exact_library "Some [''demographic'']"
                 "[(''men'', men_result)]" "[''women'']"]
  have short: "int (length (take 2 grouped_rows)) < min_periods default_detector"
    by (simp add: grouped_rows_def default_detector_def)
  from s short have a: "detect_trends exact_library default_detector (take 2 grouped_rows)
                          (Some [''demographic'']) = Inr []" by blast
  have w: "length (group_rows [''women''] grouped_rows) = 2"
    by (simp add: group_rows_def grouped_rows_def mk_row_def)
  from t keeps_rows_exact
  have "length (group_rows [''women''] (sort_values_group_date exact_library grouped_rows))
          = length (group_rows [''women''] grouped_rows)" by blast
  then have w': "length (group_rows [''women'']
                   (sort_values_group_date exact_library grouped_rows)) = 2"
    using w by simp
  from short a grouped_eval grouped_series keeps_rows_exact w' w show ?thesis by blast
qed

subsection \<open>Shocks\<close>

lemma shock_mask_filter: "shock_mask thr xs = filter (meets_threshold thr) xs"
  by (induction thr xs rule: shock_mask.induct) (simp_all add: meets_threshold_def)

lemma scored_annotate: "scored (annotate rz) = rz"
  by (simp add: scored_def annotate_def)

lemma length_calculate_zscores: "length (calculate_zscores lib vs) = length vs"
  by (simp add: calculate_zscores_def Let_def)

lemma z_score_column_ungrouped:
  "z_score_column lib df None = Inr (calculate_zscores lib (map val df))"
  by (simp add: z_score_column_def truthy_def)

lemma detect_shocks_eq:
  assumes "df \<noteq> []" "z_score_column lib df gc = Inr zs"
  shows "detect_shocks lib df gc thr
           = Inr (sort_values_z_descending lib
                    (map annotate (filter (meets_threshold thr) (zip df zs))))"
  using assms by (simp add: detect_shocks_def shock_mask_filter)

lemma fl_le_not_nan: "fl_le a b \<Longrightarrow> a \<noteq> NaN \<and> b \<noteq> NaN"
  by (cases a; cases b) (simp_all add: fl_le_def)

lemma fl_abs_nan: "fl_abs z = NaN \<longleftrightarrow> z = NaN"
  by (cases z) simp_all

lemma fl_total: "a \<noteq> NaN \<Longrightarrow> b \<noteq> NaN \<Longrightarrow> \<not> fl_less a b \<Longrightarrow> fl_le b a"
  by (cases a; cases b) (auto simp: fl_le_def)

lemma positive_threshold: "fl_less (Fin 0) thr \<Longrightarrow> \<not> fl_le thr (fl_abs (Fin 0))"
  by (cases thr) (simp_all add: fl_le_def)

lemma sorted_shocks:
  assumes "sorts_shocks lib"
  shows "mset (sort_values_z_descending lib xs) = mset xs"
    and "set (sort_values_z_descending lib xs) = set xs"
    and "sorted_wrt (\<lambda>s t. \<not> fl_less (z_score s) (z_score t)) (sort_values_z_descending lib xs)"
proof -
  show m: "mset (sort_values_z_descending lib xs) = mset xs"
    using assms by (simp add: sorts_shocks_def)
  then show "set (sort_values_z_descending lib xs) = set xs" by (rule mset_eq_setD)
  show "sorted_wrt (\<lambda>s t. \<not> fl_less (z_score s) (z_score t)) (sort_values_z_descending lib xs)"
    using assms by (simp add: sorts_shocks_def)
qed

lemma annotated_shock:
  assumes "s \<in> set (map annotate (filter (meets_threshold thr) xs))"
  shows "shock_magnitude s = fl_abs (z_score s)"
    and "shock_direction s = (if fl_less (Fin 0) (z_score s) then ''positive'' else ''negative'')"
    and "fl_le thr (fl_abs (z_score s))"
    and "z_score s \<noteq> NaN"
proof -
  from assms obtain rz where rz: "s = annotate rz" "meets_threshold thr rz" by auto
  show "shock_magnitude s = fl_abs (z_score s)"
    and "shock_direction s = (if fl_less (Fin 0) (z_score s) then ''positive'' else ''negative'')"
    by (simp_all add: rz(1) annotate_def)
  show le: "fl_le thr (fl_abs (z_score s))"
    using rz by (simp add: annotate_def meets_threshold_def)
  from fl_le_not_nan [OF le] show "z_score s \<noteq> NaN" by (simp add: fl_abs_nan)
qed

text \<open>
  Once the score column has been assigned, \<open>detect_shocks\<close> on a non-empty table returns
  the sorted list of the annotated rows whose absolute score is at least the threshold;
  without grouping the score column is \<open>calculate_zscores\<close> of the value column. With the
  sort keeping its rows and putting no row before one of greater score, the returned
  rows are exactly (as a multiset) the rows that meet the threshold, each has magnitude
  |z| and direction positive for z > 0 and negative otherwise, and the list is in
  descending order of z.
\<close>

theorem detect_shocks_emits:
  "z_score_column lib df None = Inr (calculate_zscores lib (map val df))
   \<and> length (calculate_zscores lib (map val df)) = length df
   \<and> (df \<noteq> [] \<and> z_score_column lib df group_cols = Inr zs \<longrightarrow>
        detect_shocks lib df group_cols z_threshold
          = Inr (sort_values_z_descending lib
                   (map annotate (filter (meets_threshold z_threshold) (zip df zs)))))
   \<and> (sorts_shocks lib \<and> df \<noteq> [] \<and> z_score_column lib df group_cols = Inr zs \<longrightarrow>
        (\<exists>out. detect_shocks lib df group_cols z_threshold = Inr out
           \<and> mset (map scored out) = filter_mset (meets_threshold z_threshold) (mset (zip df zs))
           \<and> (\<forall>s \<in> set out. shock_magnitude s = fl_abs (z_score s)
                \<and> shock_direction s
                    = (if fl_less (Fin 0) (z_score s) then ''positive'' else ''negative''))
           \<and> sorted_wrt (\<lambda>s t. fl_le (z_score t) (z_score s)) out))"
proof (intro conjI impI)
  show "z_score_column lib df None = Inr (calculate_zscores lib (map val df))"
    by (rule z_score_column_ungrouped)
  show "length (calculate_zscores lib (map val df)) = length df"
    by (simp add: length_calculate_zscores)
next
  assume "df \<noteq> [] \<and> z_score_column lib df group_cols = Inr zs"
  then show "detect_shocks lib df group_cols z_threshold
          = Inr (sort_values_z_descending lib
                   (map annotate (filter (meets_threshold z_threshold) (zip df zs))))"
    using detect_shocks_eq by blast
next
  assume a: "sorts_shocks lib \<and> df \<noteq> [] \<and> z_score_column lib df group_cols = Inr zs"
  let ?m = "map annotate (filter (meets_threshold z_threshold) (zip df zs))"
  let ?out = "sort_values_z_descending lib ?m"
  from a have s: "sorts_shocks lib" by blast
  have e: "detect_shocks lib df group_cols z_threshold = Inr ?out"
    using a detect_shocks_eq by blast
  have "map scored ?m = map (\<lambda>rz. rz) (filter (meets_threshold z_threshold) (zip df zs))"
    unfolding map_map by (rule map_cong) (simp_all add: scored_annotate)
  then have l: "map scored ?m = filter (meets_threshold z_threshold) (zip df zs)" by simp
  have "mset (map scored ?out) = image_mset scored (mset ?out)" by (simp only: mset_map)
  also have "\<dots> = image_mset scored (mset ?m)" by (simp only: sorted_shocks(1) [OF s])
  also have "\<dots> = mset (map scored ?m)" by (simp only: mset_map)
  also have "\<dots> = filter_mset (meets_threshold z_threshold) (mset (zip df zs))"
    unfolding l by (simp only: mset_filter)
  finally have m: "mset (map scored ?out)
      = filter_mset (meets_threshold z_threshold) (mset (zip df zs))" .
  have mem: "s \<in> set ?m" if "s \<in> set ?out" for s
    using that by (simp only: sorted_shocks(2) [OF s])
  have f: "\<forall>s \<in> set ?out. shock_magnitude s = fl_abs (z_score s)
                \<and> shock_direction s
                    = (if fl_less (Fin 0) (z_score s) then ''positive'' else ''negative'')"
    using mem annotated_shock(1,2) by blast
  have "sorted_wrt (\<lambda>s t. \<not> fl_less (z_score s) (z_score t)) ?out"
    by (rule sorted_shocks(3) [OF s])
  then have d: "sorted_wrt (\<lambda>s t. fl_le (z_score t) (z_score s)) ?out"
  proof (rule sorted_wrt_mono_rel [rotated])
    fix s t assume "s \<in> set ?out" "t \<in> set ?out" "\<not> fl_less (z_score s) (z_score t)"
    then show "fl_le (z_score t) (z_score s)"
      using mem annotated_shock(4) fl_total by blast
  qed
  from e m f d show "\<exists>out. detect_shocks lib df group_cols z_threshold = Inr out
           \<and> mset (map scored out) = filter_mset (meets_threshold z_threshold) (mset (zip df zs))
           \<and> (\<forall>s \<in> set out. shock_magnitude s = fl_abs (z_score s)
                \<and> shock_direction s
                    = (if fl_less (Fin 0) (z_score s) then ''positive'' else ''negative''))
           \<and> sorted_wrt (\<lambda>s t. fl_le (z_score t) (z_score s)) out"
    by blast
qed

lemma zero_std_zscores:
  assumes "np_std lib vs = Fin 0"
  shows "calculate_zscores lib vs = map (\<lambda>v. Fin 0) vs"
  using assms by (simp add: calculate_zscores_def Let_def)

lemma no_zero_meets:
  assumes "fl_less (Fin 0) thr" "meets_threshold thr rz"
  shows "snd rz \<noteq> Fin 0"
  using assms positive_threshold by (auto simp: meets_threshold_def)

text \<open>
  C6, as amended: when the standard deviation computed for a group is zero, every score
  of the group is 0; for a positive threshold no returned row has score 0, and a table
  analysed without grouping whose standard deviation is zero yields no row. (With
  threshold 0 every row of such a table is returned, see the counterexample below.)
\<close>

theorem zero_variance_no_shocks:
  "(np_std lib vs = Fin 0 \<longrightarrow> calculate_zscores lib vs = map (\<lambda>v. Fin 0) vs)
   \<and> (sorts_shocks lib \<and> fl_less (Fin 0) z_threshold \<and> np_std lib (map val df) = Fin 0 \<longrightarrow>
        detect_shocks lib df None z_threshold = Inr [])
   \<and> (sorts_shocks lib \<and> fl_less (Fin 0) z_threshold
        \<and> detect_shocks lib df group_cols z_threshold = Inr out \<longrightarrow>
        (\<forall>s \<in> set out. z_score s \<noteq> Fin 0))"
proof (intro conjI impI)
  assume "np_std lib vs = Fin 0"
  then show "calculate_zscores lib vs = map (\<lambda>v. Fin 0) vs" by (rule zero_std_zscores)
next
  assume a: "sorts_shocks lib \<and> fl_less (Fin 0) z_threshold \<and> np_std lib (map val df) = Fin 0"
  then have s: "sorts_shocks lib" and p: "fl_less (Fin 0) z_threshold" by blast+
  show "detect_shocks lib df None z_threshold = Inr []"
  proof (cases "df = []")
    case True
    then show ?thesis by (simp add: detect_shocks_def)
  next
    case False
    have z: "z_score_column lib df None = Inr (map (\<lambda>v. Fin 0) (map val df))"
      using a zero_std_zscores by (simp add: z_score_column_ungrouped)
    have "\<not> meets_threshold z_threshold rz"
      if "rz \<in> set (zip df (map (\<lambda>v. Fin 0) (map val df)))" for rz
    proof -
      obtain r z where rz: "rz = (r, z)" by (cases rz)
      from that have "(r, z) \<in> set (zip df (map (\<lambda>v. Fin 0) (map val df)))"
        unfolding rz .
      then have "z \<in> set (map (\<lambda>v. Fin 0) (map val df))" by (rule set_zip_rightD)
      then have "snd rz = Fin 0" unfolding rz by auto
      then show ?thesis using no_zero_meets [OF p] by blast
    qed
    then have "filter (meets_threshold z_threshold) (zip df (map (\<lambda>v. Fin 0) (map val df))) = []"
      by (simp add: filter_empty_conv)
    then have "detect_shocks lib df None z_threshold = Inr (sort_values_z_descending lib [])"
      unfolding detect_shocks_eq [OF False z] by simp
    moreover have "sort_values_z_descending lib [] = []"
      using sorted_shocks(1) [OF s, of "[]"] by simp
    ultimately show ?thesis by simp
  qed
next
  assume a: "sorts_shocks lib \<and> fl_less (Fin 0) z_threshold
        \<and> detect_shocks lib df group_cols z_threshold = Inr out"
  then have s: "sorts_shocks lib" and p: "fl_less (Fin 0) z_threshold" by blast+
  show "\<forall>s \<in> set out. z_score s \<noteq> Fin 0"
  proof (cases "df = []")
    case True
    then show ?thesis using a by (simp add: detect_shocks_def)
  next
    case False
    then obtain zs where zs: "z_score_column lib df group_cols = Inr zs"
      using a by (auto simp: detect_shocks_def split: sum.splits)
    have out: "out = sort_values_z_descending lib
                 (map annotate (filter (meets_threshold z_threshold) (zip df zs)))"
      using a unfolding detect_shocks_eq [OF False zs] by simp
    show ?thesis
    proof
      fix x assume "x \<in> set out"
      then have "x \<in> set (map annotate (filter (meets_threshold z_threshold) (zip df zs)))"
        unfolding out by (simp only: sorted_shocks(2) [OF s])
      then obtain rz where rz: "meets_threshold z_threshold rz" "x = annotate rz" by auto
      from no_zero_meets [OF p rz(1)] show "z_score x \<noteq> Fin 0"
        using rz(2) by (simp add: annotate_def)
    qed
  qed
qed

lemma descending_key_less:
  "descending_key a \<le> descending_key b \<Longrightarrow> \<not> fl_less a b"
  by (cases a; cases b) (simp_all add: less_eq_prod_def)

lemma sorts_shocks_exact: "sorts_shocks exact_library"
proof -
  have "sorted_wrt (\<lambda>s t. \<not> fl_less (z_score s) (z_score t))
          (sort_key (\<lambda>s. descending_key (z_score s)) xs)" for xs :: "shock list"
  proof -
    have "sorted (map (\<lambda>s. descending_key (z_score s))
                    (sort_key (\<lambda>s. descending_key (z_score s)) xs))"
      by (rule sorted_sort_key)
    then have "sorted_wrt (\<lambda>s t. descending_key (z_score s) \<le> descending_key (z_score t))
                 (sort_key (\<lambda>s. descending_key (z_score s)) xs)"
      by (simp add: sorted_map)
    then show ?thesis
      by (rule sorted_wrt_mono_rel [rotated]) (simp add: descending_key_less)
  qed
  then show ?thesis by (simp add: sorts_shocks_def exact_library_def)
qed

lemma spike_zscores:
  "calculate_zscores exact_library (map val spike_rows) = spike_scores"
  by (simp add: spike_rows_def mk_row_def calculate_zscores_def Let_def spike_scores_def
        exact_simps)

lemma spike_column: "z_score_column exact_library spike_rows None = Inr spike_scores"
  by (simp add: z_score_column_ungrouped spike_zscores)

lemma spike_eval:
  "detect_shocks exact_library spike_rows None (Fin (1 / 2)) = Inr spike_shocks"
  by (simp add: detect_shocks_def spike_column)
     (simp add: spike_rows_def spike_scores_def mk_row_def annotate_def fl_le_def
        spike_shocks_def exact_library_def less_eq_prod_def)

lemma spike_eval_one:
  "detect_shocks exact_library spike_rows None (Fin 1) = Inr [hd spike_shocks]"
  by (simp add: detect_shocks_def spike_column)
     (simp add: spike_rows_def spike_scores_def mk_row_def annotate_def fl_le_def
        spike_shocks_def exact_library_def less_eq_prod_def)

lemma flat_std: "np_std exact_library (map val flat_rows) = Fin 0"
  by (simp add: flat_rows_def mk_row_def exact_simps)

theorem detect_shocks_emits_witness:
  "sorts_shocks exact_library
   \<and> spike_rows \<noteq> []
   \<and> z_score_column exact_library spike_rows None = Inr spike_scores
   \<and> detect_shocks exact_library spike_rows None (Fin 1) = Inr [hd spike_shocks]
   \<and> mset (map scored [hd spike_shocks])
       = filter_mset (meets_threshold (Fin 1)) (mset (zip spike_rows spike_scores))
   \<and> detect_shocks exact_library spike_rows None (Fin (1 / 2)) = Inr spike_shocks
   \<and> mset (map scored spike_shocks)
       = filter_mset (meets_threshold (Fin (1 / 2))) (mset (zip spike_rows spike_scores))
   \<and> list_all (\<lambda>s. shock_magnitude s = fl_abs (z_score s)
                \<and> shock_direction s
                    = (if fl_less (Fin 0) (z_score s) then ''positive'' else ''negative''))
        spike_shocks
   \<and> sorted_wrt (\<lambda>s t. fl_le (z_score t) (z_score s)) spike_shocks"
proof -
  have ne: "spike_rows \<noteq> []" by (simp add: spike_rows_def)
  from detect_shocks_emits [of exact_library spike_rows None spike_scores "Fin 1"]
       sorts_shocks_exact ne spike_column
  obtain out1 where o1: "detect_shocks exact_library spike_rows None (Fin 1) = Inr out1"
    "mset (map scored out1)
       = filter_mset (meets_threshold (Fin 1)) (mset (zip spike_rows spike_scores))"
    by blast
  from o1(1) have e1: "out1 = [hd spike_shocks]" by (simp add: spike_eval_one)
  from detect_shocks_emits [of exact_library spike_rows None spike_scores "Fin (1 / 2)"]
       sorts_shocks_exact ne spike_column
  obtain out2 where o2: "detect_shocks exact_library spike_rows None (Fin (1 / 2)) = Inr out2"
    "mset (map scored out2)
       = filter_mset (meets_threshold (Fin (1 / 2))) (mset (zip spike_rows spike_scores))"
    "\<forall>s \<in> set out2. shock_magnitude s = fl_abs (z_score s)
        \<and> shock_direction s
            = (if fl_less (Fin 0) (z_score s) then ''positive'' else ''negative'')"
    "sorted_wrt (\<lambda>s t. fl_le (z_score t) (z_score s)) out2"
    by blast
  from o2(1) have e2: "out2 = spike_shocks" by (simp add: spike_eval)
  from sorts_shocks_exact ne spike_column spike_eval_one o1(2) spike_eval o2(2,3,4)
  show ?thesis unfolding e1 e2 list_all_iff by blast
qed

lemma detect_shocks_grouped_raises:
  assumes "truthy gc" "df \<noteq> []" "length (group_names df) \<noteq> length df"
  shows "detect_shocks lib df gc thr = Inl ValueError"
  using assms by (simp add: detect_shocks_def z_score_column_def)

lemma grouped_names: "group_names grouped_rows = [[''women''], [''men'']]"
  by (simp add: group_names_def grouped_rows_def mk_row_def)

text \<open>
  C5: with grouping the score column is never assigned on a table that has fewer groups
  than rows, so no row is returned: on the sample table of five rows in two groups
  \<open>detect_shocks\<close> raises ValueError, for every threshold and whatever the library
  computes. The rows the claim expects are those the call without grouping returns
  (above).
\<close>

theorem detect_shocks_grouped_value_error:
  "detect_shocks lib grouped_rows (Some [''demographic'']) z_threshold = Inl ValueError"
proof -
  have "truthy (Some [''demographic''])" by (simp add: truthy_def)
  moreover have "grouped_rows \<noteq> []" by (simp add: grouped_rows_def)
  moreover have "length (group_names grouped_rows) \<noteq> length grouped_rows"
    by (simp add: grouped_names) (simp add: grouped_rows_def)
  ultimately show ?thesis by (rule detect_shocks_grouped_raises)
qed

theorem zero_variance_no_shocks_witness:
  "sorts_shocks exact_library
   \<and> fl_less (Fin 0) (Fin 2)
   \<and> np_std exact_library (map val flat_rows) = Fin 0
   \<and> calculate_zscores exact_library (map val flat_rows) = [Fin 0, Fin 0, Fin 0]
   \<and> detect_shocks exact_library flat_rows None (Fin 2) = Inr []
   \<and> detect_shocks exact_library spike_rows None (Fin 1) = Inr [hd spike_shocks]
   \<and> list_all (\<lambda>s. z_score s \<noteq> Fin 0) [hd spike_shocks]"
proof -
  note t = zero_variance_no_shocks
             [of exact_library "map val flat_rows" "Fin 2" flat_rows None "[]"]
  from t flat_std have "calculate_zscores exact_library (map val flat_rows)
                          = map (\<lambda>v. Fin 0) (map val flat_rows)" by blast
  then have a: "calculate_zscores exact_library (map val flat_rows) = [Fin 0, Fin 0, Fin 0]"
    by (simp add: flat_rows_def)
  have p: "fl_less (Fin 0) (Fin 2)" "fl_less (Fin 0) (Fin 1)" by simp_all
  from t sorts_shocks_exact p(1) flat_std
  have b: "detect_shocks exact_library flat_rows None (Fin 2) = Inr []" by blast
  from zero_variance_no_shocks
         [of exact_library "[]" "Fin 1" spike_rows None "[hd spike_shocks]"]
       sorts_shocks_exact p(2) spike_eval_one
  have c: "\<forall>s \<in> set [hd spike_shocks]. z_score s \<noteq> Fin 0" by blast
  from sorts_shocks_exact p(1) flat_std a b spike_eval_one c
  show ?thesis unfolding list_all_iff by blast
qed

text \<open>
  With threshold 0 the three rows of the constant table, whose scores are all 0, are
  returned as shocks.
\<close>

theorem zero_variance_zero_threshold_counterexample:
  "np_std exact_library (map val flat_rows) = Fin 0
   \<and> detect_shocks exact_library flat_rows None (Fin 0) = Inr flat_shocks
   \<and> length flat_shocks = 3"
proof -
  have "detect_shocks exact_library flat_rows None (Fin 0) = Inr flat_shocks"
    by (simp add: detect_shocks_def z_score_column_def truthy_def flat_rows_def mk_row_def
        calculate_zscores_def annotate_def fl_le_def Let_def flat_shocks_def exact_simps)
  moreover have "length flat_shocks = 3" by (simp add: flat_shocks_def)
  ultimately show ?thesis using flat_std by blast
qed

subsection \<open>The caller's table\<close>

lemma take_allocate: "take (length st) (fst (allocate st t)) = st"
  by (simp add: allocate_def)









end
